theory Spec2Isabelle
  imports Main "HOL-Library.Sublist"
begin

section \<open>JavaScript values used by the tracker\<close>

text \<open>
  The tracker (class \<open>UserAnalytics\<close>) is ordinary browser JavaScript. The parts of the
  language its behaviour depends on are written out here: numbers that may be \<open>NaN\<close>,
  truthiness, \<open>String.prototype.indexOf\<close>, and plain objects used as maps (lookup through
  the prototype chain, assignment, and the order in which \<open>for ... in\<close> visits the keys).
  Strings are lists of characters; every token the code searches for is ASCII.

  A number is a double. The numbers of this code are \<open>NaN\<close>, counters that start at 0
  or 1 and grow by 1, and differences of clock readings: \<open>Num n\<close> is the integer-valued
  double \<open>n\<close>, for \<open>n\<close> between \<open>-2^53\<close> and \<open>2^53\<close>. Below \<open>2^53\<close> adding 1 is exact;
  \<open>2^53 + 1\<close> is not a double and the sum rounds back to \<open>2^53\<close>, where a counter stays.
\<close>

datatype jsnum = Num int | NaN

definition addOne :: "int \<Rightarrow> int" where
  "addOne n = (if 2 ^ 53 \<le> n then n else n + 1)"

fun plusOne :: "jsnum \<Rightarrow> jsnum" where
  "plusOne (Num n) = Num (addOne n)"
| "plusOne NaN = NaN"

text \<open>\<open>a > b\<close> on numbers: any comparison with \<open>NaN\<close> is false.\<close>

fun gt :: "jsnum \<Rightarrow> jsnum \<Rightarrow> bool" where
  "gt (Num a) (Num b) = (b < a)"
| "gt _ _ = False"

text \<open>
  The values that reach the event payloads and the remote store. \<open>Inherited k\<close> is the
  member \<open>k\<close> of \<open>Object.prototype\<close> (a function, or the prototype object itself for
  \<open>__proto__\<close>), which a lookup on a plain object returns when the object has no own
  property \<open>k\<close>. \<open>Time t\<close> is a \<open>Date\<close> (milliseconds). The last three are the store
  client's sentinels \<open>FieldValue.increment(n)\<close>, \<open>FieldValue.arrayUnion(x)\<close> and
  \<open>FieldValue.serverTimestamp()\<close>.
\<close>

datatype jsval =
    Undefined
  | Null
  | Str string
  | Number jsnum
  | Boolean bool
  | Inherited string
  | Time int
  | Arr "string list"
  | Obj "(string \<times> jsval) list"
  | Increment int
  | ArrayUnion string
  | ServerTimestamp

fun truthy :: "jsval \<Rightarrow> bool" where
  "truthy Undefined = False"
| "truthy Null = False"
| "truthy (Str s) = (s \<noteq> [])"
| "truthy (Number (Num n)) = (n \<noteq> 0)"
| "truthy (Number NaN) = False"
| "truthy (Boolean b) = b"
| "truthy _ = True"

text \<open>\<open>ToNumber\<close> on the values a counter slot can hold.\<close>

fun toNumber :: "jsval \<Rightarrow> jsnum" where
  "toNumber (Number n) = n"
| "toNumber Null = Num 0"
| "toNumber (Boolean b) = Num (if b then 1 else 0)"
| "toNumber _ = NaN"

text \<open>\<open>a || b\<close>.\<close>

definition orElse :: "jsval \<Rightarrow> jsval \<Rightarrow> jsval" where
  "orElse a b = (if truthy a then a else b)"

text \<open>A nullable string field (\<open>null\<close> is \<open>None\<close>) as a value.\<close>

fun ofString :: "string option \<Rightarrow> jsval" where
  "ofString None = Null"
| "ofString (Some s) = Str s"

subsection \<open>\<open>indexOf\<close>\<close>

text \<open>
  \<open>s.indexOf(tok)\<close>: the least position at which \<open>tok\<close> starts in \<open>s\<close>, or \<open>-1\<close>.
\<close>

fun indexOfFrom :: "string \<Rightarrow> string \<Rightarrow> nat \<Rightarrow> int" where
  "indexOfFrom [] tok i = (if tok = [] then int i else - 1)"
| "indexOfFrom (c # cs) tok i =
     (if prefix tok (c # cs) then int i else indexOfFrom cs tok (Suc i))"

definition indexOf :: "string \<Rightarrow> string \<Rightarrow> int" where
  "indexOf s tok = indexOfFrom s tok 0"

section \<open>Device and browser classification\<close>

text \<open>
  \<^verbatim>\<open>
  getBrowserInfo() {
      const ua = navigator.userAgent;
      if (ua.indexOf("Chrome") > -1) return "Chrome";
      if (ua.indexOf("Safari") > -1) return "Safari";
      if (ua.indexOf("Firefox") > -1) return "Firefox";
      if (ua.indexOf("MSIE") > -1 || ua.indexOf("Trident") > -1) return "IE";
      if (ua.indexOf("Edge") > -1) return "Edge";
      return "Unknown";
  }
  \<close>
\<close>

definition getBrowserInfo :: "string \<Rightarrow> string" where
  "getBrowserInfo ua =
     (if indexOf ua ''Chrome'' > - 1 then ''Chrome''
      else if indexOf ua ''Safari'' > - 1 then ''Safari''
      else if indexOf ua ''Firefox'' > - 1 then ''Firefox''
      else if indexOf ua ''MSIE'' > - 1 \<or> indexOf ua ''Trident'' > - 1 then ''IE''
      else if indexOf ua ''Edge'' > - 1 then ''Edge''
      else ''Unknown'')"

text \<open>
  \<^verbatim>\<open>
  getDeviceInfo() {
      const ua = navigator.userAgent;
      if (/Android|webOS|iPhone|iPad|iPod|BlackBerry|IEMobile|Opera Mini/i.test(ua)) {
          return 'mobile';
      } else if (/iPad|Tablet|PlayBook/i.test(ua)) {
          return 'tablet';
      }
      return 'desktop';
  }
  \<close>
  The patterns are alternatives of literal tokens under the \<open>i\<close> flag: a token matches
  where it occurs in the string, letter case ignored.
\<close>

definition toLower :: "char \<Rightarrow> char" where
  "toLower c =
     (if c \<in> set ''ABCDEFGHIJKLMNOPQRSTUVWXYZ''
      then char_of (of_char c + (32::nat)) else c)"

definition testAnyOf :: "string list \<Rightarrow> string \<Rightarrow> bool" where
  "testAnyOf toks ua =
     list_ex (\<lambda>tok. indexOf (map toLower ua) (map toLower tok) > - 1) toks"

definition getDeviceInfo :: "string \<Rightarrow> string" where
  "getDeviceInfo ua =
     (if testAnyOf [''Android'', ''webOS'', ''iPhone'', ''iPad'', ''iPod'', ''BlackBerry'',
                    ''IEMobile'', ''Opera Mini''] ua then ''mobile''
      else if testAnyOf [''iPad'', ''Tablet'', ''PlayBook''] ua then ''tablet''
      else ''desktop'')"

section \<open>Plain objects as counting maps\<close>

text \<open>
  \<open>viewed\<close>, \<open>clicked\<close> and \<open>amenitiesSelected\<close> start as the literal \<open>{}\<close> and are only
  touched by \<open>obj[key]\<close>, \<open>obj[key] = 0\<close> and \<open>obj[key]++\<close>. Such an object is the list of
  its own properties in the order they were created; its prototype is
  \<open>Object.prototype\<close>.
\<close>

type_synonym jsobj = "(string \<times> jsnum) list"

text \<open>
  The data properties of \<open>Object.prototype\<close> (all functions, none enumerable) and its
  one accessor, \<open>__proto__\<close>.
\<close>

definition objectPrototypeMembers :: "string list" where
  "objectPrototypeMembers =
     [''constructor'', ''hasOwnProperty'', ''isPrototypeOf'', ''propertyIsEnumerable'',
      ''toLocaleString'', ''toString'', ''valueOf'', ''__defineGetter__'',
      ''__defineSetter__'', ''__lookupGetter__'', ''__lookupSetter__'']"

text \<open>
  \<open>obj[key]\<close>: the own property, else the inherited member, else \<open>undefined\<close>.
\<close>

definition getProp :: "jsobj \<Rightarrow> string \<Rightarrow> jsval" where
  "getProp obj k =
     (case map_of obj k of
        Some n \<Rightarrow> Number n
      | None \<Rightarrow>
          if k = ''__proto__'' \<or> k \<in> set objectPrototypeMembers then Inherited k
          else Undefined)"

text \<open>
  \<open>obj[key] = n\<close>: an own property keeps its place; a new one is created last. A number
  assigned to \<open>__proto__\<close> reaches the inherited setter, which ignores it.
\<close>

fun assign :: "(string \<times> 'v) list \<Rightarrow> string \<Rightarrow> 'v \<Rightarrow> (string \<times> 'v) list" where
  "assign [] k n = [(k, n)]"
| "assign ((k', m) # ps) k n =
     (if k' = k then (k, n) # ps else (k', m) # assign ps k n)"

definition setProp :: "jsobj \<Rightarrow> string \<Rightarrow> jsnum \<Rightarrow> jsobj" where
  "setProp obj k n = (if k = ''__proto__'' then obj else assign obj k n)"

text \<open>
  The counting idiom of \<open>logCasinoPreference\<close>:
  \<^verbatim>\<open>
  if (!obj[value]) { obj[value] = 0; }
  obj[value]++;
  \<close>
\<close>

definition bump :: "jsobj \<Rightarrow> string \<Rightarrow> jsobj" where
  "bump obj k =
     (let obj1 = (if \<not> truthy (getProp obj k) then setProp obj k (Num 0) else obj)
      in setProp obj1 k (plusOne (toNumber (getProp obj1 k))))"

subsection \<open>Enumeration order\<close>

text \<open>
  \<open>for (key in obj)\<close> and \<open>Object.entries(obj)\<close> visit the own keys that are array
  indices (canonical decimal numerals below \<open>2^32 - 1\<close>) in ascending numeric order
  first, and then all other keys in the order of their creation.
\<close>

definition isDigit :: "char \<Rightarrow> bool" where
  "isDigit c = (c \<in> set ''0123456789'')"

definition decimal :: "string \<Rightarrow> int" where
  "decimal s = foldl (\<lambda>a c. 10 * a + (of_char c - 48)) 0 s"

definition isArrayIndex :: "string \<Rightarrow> bool" where
  "isArrayIndex s =
     (s \<noteq> [] \<and> list_all isDigit s \<and> (s = ''0'' \<or> hd s \<noteq> CHR ''0'')
      \<and> decimal s < 2 ^ 32 - 1)"

definition forIn :: "jsobj \<Rightarrow> jsobj" where
  "forIn obj =
     sort_key (\<lambda>(k, n). decimal k) (filter (\<lambda>(k, n). isArrayIndex k) obj)
     @ filter (\<lambda>(k, n). \<not> isArrayIndex k) obj"

text \<open>
  \<^verbatim>\<open>
  getMostFrequent(obj) {
      let max = 0;
      let maxKey = null;
      for (let key in obj) {
          if (obj[key] > max) { max = obj[key]; maxKey = key; }
      }
      return maxKey;
  }
  \<close>
  The loop state is the pair \<open>(max, maxKey)\<close>; each visited key comes with its own value.
\<close>

fun scanMax :: "jsobj \<Rightarrow> jsnum \<times> string option \<Rightarrow> jsnum \<times> string option" where
  "scanMax [] acc = acc"
| "scanMax ((key, v) # rest) (mx, maxKey) =
     (if gt v mx then scanMax rest (v, Some key) else scanMax rest (mx, maxKey))"

definition getMostFrequent :: "jsobj \<Rightarrow> string option" where
  "getMostFrequent obj = snd (scanMax (forIn obj) (Num 0, None))"

text \<open>
  What the specification says the derived field is: the label with the maximum count,
  the first one at that maximum in a left-to-right scan of the given sequence of
  entries. Entries without a positive count cannot be the answer.
\<close>

definition positiveCounts :: "jsobj \<Rightarrow> int list" where
  "positiveCounts xs = concat (map (\<lambda>(k, v). case v of Num n \<Rightarrow> if 0 < n then [n] else [] | NaN \<Rightarrow> []) xs)"

definition firstAtMax :: "jsobj \<Rightarrow> string option" where
  "firstAtMax xs =
     (if positiveCounts xs = [] then None
      else map_option fst (find (\<lambda>(k, v). v = Num (Max (set (positiveCounts xs)))) xs))"

text \<open>The loop state a scan must end in once it has met a positive count.\<close>

definition atMax :: "jsobj \<Rightarrow> jsnum \<times> string option" where
  "atMax xs =
     (Num (Max (set (positiveCounts xs))),
      map_option fst (find (\<lambda>(k, v). v = Num (Max (set (positiveCounts xs)))) xs))"

section \<open>The world around the tracker\<close>

subsection \<open>The remote document store\<close>

text \<open>
  The store is an external service reached through the global \<open>firebase\<close>. Only its
  contract is modelled: a document is a list of field paths with their values;
  \<open>set\<close> replaces a document, \<open>set\<close> with \<open>merge\<close> and \<open>update\<close> write the given fields
  (\<open>update\<close> is rejected when the document does not exist), \<open>add\<close> appends a document to
  a collection. While \<open>online\<close> is false every request is rejected and nothing is written.
  Writes take effect in the order the code issues them. A field path is kept as the
  string the code builds; the client's checks on the shape of a path are not modelled.
  \<open>FieldValue.increment\<close> is applied by the server, on integers.
\<close>

type_synonym payload = "(string \<times> jsval) list"
type_synonym doc = payload

definition storeField :: "jsval option \<Rightarrow> jsval \<Rightarrow> jsval" where
  "storeField old v =
     (case v of
        Increment d \<Rightarrow>
          (case old of Some (Number (Num n)) \<Rightarrow> Number (Num (n + d)) | _ \<Rightarrow> Number (Num d))
      | ArrayUnion x \<Rightarrow>
          (case old of Some (Arr xs) \<Rightarrow> Arr (if x \<in> set xs then xs else xs @ [x])
                     | _ \<Rightarrow> Arr [x])
      | _ \<Rightarrow> v)"

fun writeFields :: "doc \<Rightarrow> payload \<Rightarrow> doc" where
  "writeFields d [] = d"
| "writeFields d ((path, v) # rest) =
     writeFields (assign d path (storeField (map_of d path) v)) rest"

text \<open>
  The client refuses a document holding \<open>undefined\<close> or a function, at any depth: the
  call throws before anything is sent. \<open>Object.prototype\<close> itself (the inherited member
  \<open>__proto__\<close>) is a plain object without enumerable properties: the client accepts it
  and stores an empty map.
\<close>

fun storable :: "jsval \<Rightarrow> bool" where
  "storable Undefined = False"
| "storable (Inherited k) = (k = ''__proto__'')"
| "storable (Obj fs) = list_all (\<lambda>fv. storable (snd fv)) fs"
| "storable _ = True"

fun stored :: "jsval \<Rightarrow> jsval" where
  "stored (Inherited k) = Obj []"
| "stored (Obj fs) = Obj (map (\<lambda>fv. (fst fv, stored (snd fv))) fs)"
| "stored v = v"

datatype mediaRef = MediaRef string int string

record post =
  postUserId :: string
  postUsername :: string
  postText :: string
  videoUrl :: "mediaRef option"

record store =
  online :: bool
  users_by_ip :: "string \<rightharpoonup> doc"
  user_events :: "(string \<times> payload) list"
  session_events :: "(string \<times> string \<times> payload) list"
  sessions :: "string \<times> string \<rightharpoonup> doc"
  user_mappings :: "string \<rightharpoonup> doc"
  uploads :: "mediaRef list"
  posts :: "post list"
  analyticsSink :: "(string \<times> payload) list"

text \<open>
  \<open>posts\<close> is kept newest first, which is what the query
  \<open>orderBy("timestamp", "desc")\<close> returns: the server stamps a post when it is added.
\<close>

subsection \<open>The page\<close>

text \<open>
  The tracker never declares the identifier \<open>firebase\<close>: it is a global that the SDK's
  script creates. On a page that does not load that script, or where the script failed
  to load, the identifier is \<open>Undeclared\<close>, and evaluating it (as \<open>!firebase\<close> and
  \<open>firebase && ...\<close> do) throws a \<open>ReferenceError\<close>. A declared global holds a falsy value
  (\<open>None\<close>) or the SDK, which may lack a product.
\<close>

datatype 'a global = Undeclared | Declared 'a

record sdk =
  firestoreLoaded :: bool
  storageLoaded :: bool
  analyticsLoaded :: bool

record filterItem =
  amenity :: "string option"
  rating :: "string option"
  distance :: "string option"

datatype element = PostDiv string string "mediaRef option" | AdDiv

datatype listener =
    OnCardClick nat
  | OnFilterClick nat
  | OnSearchSubmit
  | OnAuthStateChanged

datatype logline = Info string | Warning string | Failure string

record page =
  firebase :: "sdk option global"
  userAgent :: string
  pathname :: string
  title :: string
  referrer :: string
  navigationStart :: int
  categoryCards :: "string option list"
  filterItems :: "filterItem list"
  hasSearchForm :: bool
  searchInput :: "string option"
  postsContainer :: "element list option"
  listeners :: "listener list"
  console :: "logline list"

section \<open>The tracker\<close>

record interaction =
  eventType :: string
  details :: payload
  timestamp :: int

record search =
  query :: string
  filters :: payload
  searchTime :: int

text \<open>
  The fields of a \<open>UserAnalytics\<close> instance, nested as the constructor builds them,
  together with the store and the page the instance acts on.
  The constructor's \<open>userProfile\<close> literal has no \<open>username\<close> property; the field is
  present here so that reading it is defined, and \<open>None\<close> is \<open>undefined\<close>. Likewise
  \<open>previousVisits\<close> is not set by the constructor, and \<open>None\<close> is \<open>undefined\<close>.
\<close>

record userProfile =
  ip :: "string option"
  location :: payload
  device :: string
  browser :: string
  firstSeen :: int
  returning :: bool
  username :: "string option"

record casinoPreferences =
  viewed :: jsobj
  clicked :: jsobj
  amenitiesSelected :: jsobj
  typePreference :: "string option"

record sessionData =
  pageViews :: int
  startTime :: int
  searches :: "search list"
  interactions :: "interaction list"
  prefs :: casinoPreferences

record state =
  store :: store
  page :: page
  sessionStartTime :: int
  sessionId :: string
  profile :: userProfile
  session :: sessionData
  previousVisits :: "jsnum option"
  isAuthenticated :: bool
  userId :: "string option"
  userEmail :: "string option"

definition consoleLog :: "logline \<Rightarrow> state \<Rightarrow> state" where
  "consoleLog l s = s\<lparr>page := (page s)\<lparr>console := console (page s) @ [l]\<rparr>\<rparr>"

text \<open>
  A method returns, or it throws; either way the instance, the page and the store are
  as the method left them at that point. For an \<open>async\<close> method \<open>Threw\<close> says that the
  promise it returned is rejected: a caller that awaits it throws in turn, a caller
  that does not goes on.
\<close>

datatype error = ReferenceError

datatype outcome = Returned state | Threw error state

fun stateOf :: "outcome \<Rightarrow> state" where
  "stateOf (Returned s) = s"
| "stateOf (Threw e s) = s"

fun threw :: "outcome \<Rightarrow> bool" where
  "threw (Returned s) = False"
| "threw (Threw e s) = True"

text \<open>Statement after statement: the second runs when the first has returned.\<close>

fun andThen :: "outcome \<Rightarrow> (state \<Rightarrow> outcome) \<Rightarrow> outcome" where
  "andThen (Returned s) f = f s"
| "andThen (Threw e s) f = Threw e s"

text \<open>
  \<open>firebase && firebase.firestore\<close> and its siblings, once \<open>firebase\<close> has been
  evaluated: every guard below first tests that the identifier is declared, and throws
  when it is not.
\<close>

definition firestoreReady :: "state \<Rightarrow> bool" where
  "firestoreReady s =
     (case firebase (page s) of Declared (Some k) \<Rightarrow> firestoreLoaded k | _ \<Rightarrow> False)"

definition storageReady :: "state \<Rightarrow> bool" where
  "storageReady s =
     (case firebase (page s) of Declared (Some k) \<Rightarrow> storageLoaded k | _ \<Rightarrow> False)"

definition analyticsReady :: "state \<Rightarrow> bool" where
  "analyticsReady s =
     (case firebase (page s) of Declared (Some k) \<Rightarrow> analyticsLoaded k | _ \<Rightarrow> False)"

text \<open>
  \<^verbatim>\<open>
  constructor() {
      this.sessionStartTime = new Date();
      this.sessionId = Math.random().toString(36).substring(2, 15);
      this.userProfile = { ip: null, location: {country: null, ...},
          device: this.getDeviceInfo(), browser: this.getBrowserInfo(),
          firstSeen: new Date(), returning: false };
      this.sessionData = { pageViews: 0, startTime: this.sessionStartTime,
          searches: [], interactions: [],
          casinoPreferences: { viewed: {}, clicked: {}, amenitiesSelected: {},
                               typePreference: null } };
      this.isAuthenticated = false;
      this.userId = null;
      this.userEmail = null;
      console.log("Initializing user analytics...");
      this.initialize();
  }
  \<close>
  The clock reading and the random identifier are arguments. \<open>initialize\<close> suspends at
  its first \<open>await\<close>; it is modelled below as a call of its own that gets the outcome of
  the request.
\<close>

definition newTracker :: "int \<Rightarrow> string \<Rightarrow> store \<Rightarrow> page \<Rightarrow> state" where
  "newTracker now sid st pg =
     consoleLog (Info ''Initializing user analytics...'')
       \<lparr> store = st, page = pg,
         sessionStartTime = now, sessionId = sid,
         profile =
           \<lparr> ip = None,
             location = [(''country'', Null), (''city'', Null), (''region'', Null),
                         (''latitude'', Null), (''longitude'', Null)],
             device = getDeviceInfo (userAgent pg),
             browser = getBrowserInfo (userAgent pg),
             firstSeen = now, returning = False, username = None \<rparr>,
         session =
           \<lparr> pageViews = 0, startTime = now, searches = [], interactions = [],
             prefs = \<lparr> viewed = [], clicked = [], amenitiesSelected = [],
                       typePreference = None \<rparr> \<rparr>,
         previousVisits = None,
         isAuthenticated = False, userId = None, userEmail = None \<rparr>"

subsection \<open>Generic event emission\<close>

text \<open>Object spread \<open>{...a, ...b}\<close>: later keys overwrite earlier ones in place.\<close>

definition spread :: "payload \<Rightarrow> payload \<Rightarrow> payload" where
  "spread a b = fold (\<lambda>(k, v) acc. assign acc k v) b a"

fun ofNumber :: "jsnum option \<Rightarrow> jsval" where
  "ofNumber None = Undefined"
| "ofNumber (Some n) = Number n"

text \<open>\<open>Math.floor((new Date() - this.sessionStartTime) / 1000)\<close>\<close>

definition durationSeconds :: "int \<Rightarrow> state \<Rightarrow> int" where
  "durationSeconds now s = (now - sessionStartTime s) div 1000"

definition eventData :: "int \<Rightarrow> payload \<Rightarrow> state \<Rightarrow> payload" where
  "eventData now dets s =
     spread
       [(''timestamp'', Time now),
        (''sessionId'', Str (sessionId s)),
        (''sessionDuration'', Number (Num (durationSeconds now s))),
        (''ip'', ofString (ip (profile s))),
        (''location'', Obj (location (profile s))),
        (''device'', Str (device (profile s))),
        (''browser'', Str (browser (profile s))),
        (''user_id'', ofString (userId s)),
        (''user_email'', ofString (userEmail s)),
        (''isAuthenticated'', Boolean (isAuthenticated s)),
        (''returning'', Boolean (returning (profile s))),
        (''previousVisits'', orElse (ofNumber (previousVisits s)) (Number (Num 0)))]
       dets"

text \<open>
  The body of the \<open>try\<close> in \<open>logEvent\<close>, for the caller record \<open>a\<close>: one event document
  added under the session, then the session summary written with \<open>merge\<close>. Neither
  promise is awaited: a rejected request is lost silently. Only the client's own
  refusal of a value throws, and the \<open>catch\<close> turns that into a warning.
  \<open>pageViews\<close>, \<open>searches.length\<close> and \<open>interactions.length\<close> are numbers.
\<close>

definition sessionSummary :: "int \<Rightarrow> state \<Rightarrow> payload" where
  "sessionSummary now s =
     [(''startTime'', Time (sessionStartTime s)),
      (''lastActivity'', ServerTimestamp),
      (''pageViews'', Number (Num (pageViews (session s)))),
      (''duration'', Number (Num (durationSeconds now s))),
      (''userAgent'', Str (userAgent (page s))),
      (''device'', Str (device (profile s))),
      (''searches'', Number (Num (int (length (searches (session s)))))),
      (''interactions'', Number (Num (int (length (interactions (session s))))))]"

definition sessionLog :: "int \<Rightarrow> string \<Rightarrow> payload \<Rightarrow> string \<Rightarrow> state \<Rightarrow> state" where
  "sessionLog now event_type dets a s =
     (let ev = spread [(''eventType'', Str event_type), (''timestamp'', ServerTimestamp)] dets;
          k = (a, sessionId s)
      in if \<not> list_all (\<lambda>(f, v). storable v) ev
         then consoleLog (Warning ''Firebase logging error:'') s
         else if \<not> online (store s) then s
         else s\<lparr>store := (store s)
                \<lparr>session_events := session_events (store s)
                   @ [(a, sessionId s, map (\<lambda>(f, v). (f, stored v)) ev)],
                 sessions := (sessions (store s))
                   (k \<mapsto> writeFields (case sessions (store s) k of None \<Rightarrow> [] | Some d \<Rightarrow> d)
                                      (sessionSummary now s))\<rparr>\<rparr>)"

text \<open>
  \<^verbatim>\<open>
  logEvent(event_type, details = {}) {
      const eventData = { timestamp: new Date(), sessionId: ..., ...details };
      this.sessionData.interactions.push({ type: event_type, details: details,
                                           timestamp: new Date() });
      console.log(`Analytics event: ${event_type}`, eventData);
      if (firebase && firebase.firestore && this.userProfile.ip) {
          try { ...events.add({...}); ...sessions.doc(id).set({...}, { merge: true }); }
          catch (e) { console.warn("Firebase logging error:", e); }
      }
      if (firebase && firebase.analytics) {
          try { firebase.analytics().logEvent(event_type, eventData); }
          catch (e) { console.warn("Analytics logging error:", e); }
      }
  }
  \<close>
\<close>

text \<open>
  Both guards stand outside any \<open>try\<close>. The interaction has been pushed and the line
  written to the console when the first guard evaluates \<open>firebase\<close>; with the identifier
  undeclared the method throws there, whatever \<open>userProfile.ip\<close> is.
\<close>

definition logEvent :: "int \<Rightarrow> string \<Rightarrow> payload \<Rightarrow> state \<Rightarrow> outcome" where
  "logEvent now event_type dets s =
     (let sent = eventData now dets s;
          s1 = s\<lparr>session := (session s)
                 \<lparr>interactions := interactions (session s)
                    @ [\<lparr>eventType = event_type, details = dets, timestamp = now\<rparr>]\<rparr>\<rparr>;
          s2 = consoleLog (Info (''Analytics event: '' @ event_type)) s1
      in if firebase (page s2) = Undeclared then Threw ReferenceError s2
         else
           (let s3 = (if firestoreReady s2
                      then (case ip (profile s2) of
                              None \<Rightarrow> s2
                            | Some a \<Rightarrow>
                                if a \<noteq> [] then sessionLog now event_type dets a s2 else s2)
                      else s2)
            in Returned
                 (if analyticsReady s3
                  then s3\<lparr>store := (store s3)
                          \<lparr>analyticsSink := analyticsSink (store s3) @ [(event_type, sent)]\<rparr>\<rparr>
                  else s3)))"

subsection \<open>Initialization\<close>

text \<open>
  What \<open>userData.visitCount || 0\<close> and \<open>userData.preferences.mostViewedType || null\<close>
  read from a caller record. The records hold a number and a string or \<open>null\<close> there (this
  code is their only writer); any other value is read as absent.
\<close>

definition visitCountOf :: "doc \<Rightarrow> jsnum" where
  "visitCountOf d = (case map_of d ''visitCount'' of Some (Number (Num n)) \<Rightarrow> Num n | _ \<Rightarrow> Num 0)"

definition mostViewedTypeOf :: "doc \<Rightarrow> string option" where
  "mostViewedTypeOf d =
     (case map_of d ''preferences.mostViewedType'' of
        Some (Str t) \<Rightarrow> if t = [] then None else Some t
      | _ \<Rightarrow> None)"

text \<open>\<open>userData.preferences\<close> is truthy: the record has a preferences map.\<close>

definition hasPreferences :: "doc \<Rightarrow> bool" where
  "hasPreferences d =
     list_ex (\<lambda>(path, v). (path = ''preferences'' \<and> truthy v) \<or> prefix ''preferences.'' path) d"

text \<open>
  \<^verbatim>\<open>
  async checkReturningUser() {
      if (!firebase || !firebase.firestore) {
          console.warn("Firebase not available for user check"); return;
      }
      try {
          const db = firebase.firestore();
          if (this.userProfile.ip) {
              const userDoc = await db.collection('users_by_ip').doc(this.userProfile.ip).get();
              if (userDoc.exists) {
                  const userData = userDoc.data();
                  this.userProfile.returning = true;
                  this.previousVisits = userData.visitCount || 0;
                  await db.collection('users_by_ip').doc(this.userProfile.ip).update({
                      visitCount: FieldValue.increment(1), lastVisit: FieldValue.serverTimestamp() });
                  if (userData.preferences) {
                      this.sessionData.casinoPreferences.typePreference =
                          userData.preferences.mostViewedType || null;
                  }
                  console.log("Returning user detected:", {...});
              } else {
                  await db.collection('users_by_ip').doc(this.userProfile.ip).set({
                      firstSeen: ..., lastVisit: ..., visitCount: 1,
                      userAgent: navigator.userAgent, device: this.userProfile.device,
                      preferences: {} });
              }
          }
      } catch (error) { console.error("Error checking returning user status:", error); }
  }
  \<close>
\<close>

text \<open>
  The first guard stands before the \<open>try\<close>: with \<open>firebase\<close> undeclared the method
  throws (its promise is rejected) before anything else happens.
\<close>

definition checkReturningUser :: "state \<Rightarrow> outcome" where
  "checkReturningUser s =
     (if firebase (page s) = Undeclared then Threw ReferenceError s
      else Returned
       (if \<not> firestoreReady s
        then consoleLog (Warning ''Firebase not available for user check'') s
        else case ip (profile s) of
             None \<Rightarrow> s
           | Some a \<Rightarrow>
               if a = [] then s
               else if \<not> online (store s)
               then consoleLog (Failure ''Error checking returning user status:'') s
               else (case users_by_ip (store s) a of
                       Some userData \<Rightarrow>
                         (let s1 = s\<lparr>profile := (profile s)\<lparr>returning := True\<rparr>,
                                    previousVisits := Some (visitCountOf userData)\<rparr>;
                              s2 = s1\<lparr>store := (store s1)
                                     \<lparr>users_by_ip := (users_by_ip (store s1))
                                        (a \<mapsto> writeFields userData
                                               [(''visitCount'', Increment 1),
                                                (''lastVisit'', ServerTimestamp)])\<rparr>\<rparr>;
                              s3 = (if hasPreferences userData
                                    then s2\<lparr>session := (session s2)
                                           \<lparr>prefs := (prefs (session s2))
                                              \<lparr>typePreference := mostViewedTypeOf userData\<rparr>\<rparr>\<rparr>
                                    else s2)
                          in consoleLog (Info ''Returning user detected:'') s3)
                     | None \<Rightarrow>
                         s\<lparr>store := (store s)
                            \<lparr>users_by_ip := (users_by_ip (store s))
                               (a \<mapsto> writeFields []
                                      [(''firstSeen'', ServerTimestamp),
                                       (''lastVisit'', ServerTimestamp),
                                       (''visitCount'', Number (Num 1)),
                                       (''userAgent'', Str (userAgent (page s))),
                                       (''device'', Str (device (profile s))),
                                       (''preferences'', Obj [])])\<rparr>\<rparr>)))"

text \<open>
  \<open>setupEventListeners\<close> registers one click listener per category card, one per filter
  item, and a submit listener when the search form exists. What the listeners do when
  they fire is given below, after the operations they call.
\<close>

definition setupEventListeners :: "state \<Rightarrow> state" where
  "setupEventListeners s =
     s\<lparr>page := (page s)
        \<lparr>listeners := listeners (page s)
           @ map OnCardClick [0 ..< length (categoryCards (page s))]
           @ map OnFilterClick [0 ..< length (filterItems (page s))]
           @ (if hasSearchForm (page s) then [OnSearchSubmit] else [])\<rparr>\<rparr>"

text \<open>
  \<^verbatim>\<open>
  logPageView() {
      this.sessionData.pageViews++;
      const page = window.location.pathname;
      this.logEvent('page_view', { page: page, title: document.title,
                                   referrer: document.referrer, loadTime: performance.now() });
  }
  \<close>
\<close>

definition logPageView :: "int \<Rightarrow> state \<Rightarrow> outcome" where
  "logPageView now s =
     (let s1 = s\<lparr>session := (session s)\<lparr>pageViews := addOne (pageViews (session s))\<rparr>\<rparr>
      in logEvent now ''page_view''
           [(''page'', Str (pathname (page s1))),
            (''title'', Str (title (page s1))),
            (''referrer'', Str (referrer (page s1))),
            (''loadTime'', Number (Num (now - navigationStart (page s1))))] s1)"

text \<open>
  The outcome of \<open>fetch('/get_user_ip')\<close> followed by \<open>response.json()\<close>: either of them
  throws, or the body is parsed and gives \<open>data.ip\<close> and \<open>data.geo\<close>.
\<close>

datatype fetchResult = FetchFailed | Resolved "string option" payload

text \<open>
  \<^verbatim>\<open>
  async initialize() {
      try {
          const response = await fetch('/get_user_ip');
          const data = await response.json();
          this.userProfile.ip = data.ip;
          this.userProfile.location = data.geo;
          await this.checkReturningUser();
          this.setupEventListeners();
          this.logPageView();
          document.addEventListener('auth_state_changed', this.handleAuthChange.bind(this));
          console.log("User profile initialized:", this.userProfile);
      } catch (error) {
          console.error("Failed to initialize analytics:", error);
      }
  }
  \<close>
  One \<open>try\<close> encloses every step, so the first throw ends the protocol in the
  \<open>catch\<close>: a failed request, the rejection of the awaited \<open>checkReturningUser\<close>, or a
  throw of \<open>logPageView\<close>.
\<close>

definition initialize :: "int \<Rightarrow> fetchResult \<Rightarrow> state \<Rightarrow> outcome" where
  "initialize now r s =
     (case r of
        FetchFailed \<Rightarrow> Returned (consoleLog (Failure ''Failed to initialize analytics:'') s)
      | Resolved a geo \<Rightarrow>
          (let s1 = s\<lparr>profile := (profile s)\<lparr>ip := a, location := geo\<rparr>\<rparr>
           in case checkReturningUser s1 of
                Threw e s2 \<Rightarrow>
                  Returned (consoleLog (Failure ''Failed to initialize analytics:'') s2)
              | Returned s2 \<Rightarrow>
                  (let s3 = setupEventListeners s2
                   in case logPageView now s3 of
                        Threw e s4 \<Rightarrow>
                          Returned (consoleLog (Failure ''Failed to initialize analytics:'') s4)
                      | Returned s4 \<Rightarrow>
                          (let s5 = s4\<lparr>page := (page s4)
                                       \<lparr>listeners := listeners (page s4) @ [OnAuthStateChanged]\<rparr>\<rparr>
                           in Returned (consoleLog (Info ''User profile initialized:'') s5)))))"

subsection \<open>Authentication signals\<close>

text \<open>
  \<^verbatim>\<open>
  async linkUserWithIP() {
      if (!firebase || !firebase.firestore || !this.userId || !this.userProfile.ip) return;
      try {
          const db = firebase.firestore();
          await db.collection('user_mappings').doc(this.userId).set({
              linkedIPs: FieldValue.arrayUnion(this.userProfile.ip),
              lastUpdated: FieldValue.serverTimestamp() }, { merge: true });
          await db.collection('users_by_ip').doc(this.userProfile.ip).update({
              linkedUsers: FieldValue.arrayUnion(this.userId),
              lastUserId: this.userId, lastUserEmail: this.userEmail });
          console.log("Successfully linked user with IP");
      } catch (error) { console.error("Error linking user with IP:", error); }
  }
  \<close>
\<close>

definition linkUserWithIP :: "state \<Rightarrow> outcome" where
  "linkUserWithIP s =
     (if firebase (page s) = Undeclared then Threw ReferenceError s
      else Returned
       (if \<not> firestoreReady s then s
        else case (userId s, ip (profile s)) of
        (Some u, Some a) \<Rightarrow>
          if u = [] \<or> a = [] then s
          else if \<not> online (store s)
          then consoleLog (Failure ''Error linking user with IP:'') s
          else
            (let s1 = s\<lparr>store := (store s)
                        \<lparr>user_mappings := (user_mappings (store s))
                           (u \<mapsto> writeFields
                                  (case user_mappings (store s) u of None \<Rightarrow> [] | Some d \<Rightarrow> d)
                                  [(''linkedIPs'', ArrayUnion a),
                                   (''lastUpdated'', ServerTimestamp)])\<rparr>\<rparr>
             in case users_by_ip (store s1) a of
                  None \<Rightarrow> consoleLog (Failure ''Error linking user with IP:'') s1
                | Some d \<Rightarrow>
                    consoleLog (Info ''Successfully linked user with IP'')
                      (s1\<lparr>store := (store s1)
                          \<lparr>users_by_ip := (users_by_ip (store s1))
                             (a \<mapsto> writeFields d
                                    [(''linkedUsers'', ArrayUnion u),
                                     (''lastUserId'', Str u),
                                     (''lastUserEmail'', ofString (userEmail s1))])\<rparr>\<rparr>))
      | _ \<Rightarrow> s))"

text \<open>
  The payload of the \<open>auth_state_changed\<close> signal: no user, or a user with \<open>uid\<close> and
  \<open>email\<close>.
  \<^verbatim>\<open>
  handleAuthChange(event) {
      if (event.detail && event.detail.user) {
          this.isAuthenticated = true;
          this.userId = event.detail.user.uid;
          this.userEmail = event.detail.user.email;
          this.logEvent('user_login', { user_id: this.userId, user_email: this.userEmail });
          this.linkUserWithIP();
      } else {
          this.isAuthenticated = false;
          this.userId = null;
          this.userEmail = null;
          this.logEvent('user_logout');
      }
  }
  \<close>
\<close>

datatype authEvent = SignedOut | SignedIn string "string option"

text \<open>\<open>linkUserWithIP\<close> is not awaited: its promise is dropped.\<close>

definition handleAuthChange :: "int \<Rightarrow> authEvent \<Rightarrow> state \<Rightarrow> outcome" where
  "handleAuthChange now ev s =
     (case ev of
        SignedIn uid email \<Rightarrow>
          (let s1 = s\<lparr>isAuthenticated := True, userId := Some uid, userEmail := email\<rparr>
           in andThen
                (logEvent now ''user_login''
                   [(''user_id'', ofString (userId s1)),
                    (''user_email'', ofString (userEmail s1))] s1)
                (\<lambda>s2. Returned (stateOf (linkUserWithIP s2))))
      | SignedOut \<Rightarrow>
          logEvent now ''user_logout'' []
            (s\<lparr>isAuthenticated := False, userId := None, userEmail := None\<rparr>))"

subsection \<open>Search and preference logging\<close>

text \<open>
  \<^verbatim>\<open>
  logSearch(query, filters = {}) {
      this.sessionData.searches.push({ query: query, filters: filters, timestamp: new Date() });
      this.logEvent('search', { query: query, ...filters });
  }
  \<close>
\<close>

definition logSearch :: "int \<Rightarrow> string \<Rightarrow> payload \<Rightarrow> state \<Rightarrow> outcome" where
  "logSearch now q fs s =
     logEvent now ''search'' (spread [(''query'', Str q)] fs)
       (s\<lparr>session := (session s)
          \<lparr>searches := searches (session s) @ [\<lparr>query = q, filters = fs, searchTime = now\<rparr>]\<rparr>\<rparr>)"

text \<open>
  A preference value is what \<open>getAttribute\<close> gave: a string, or \<open>null\<close>. Used as a
  property key or inside a template string it reads \<open>"null"\<close>.
\<close>

fun keyOf :: "string option \<Rightarrow> string" where
  "keyOf None = ''null''"
| "keyOf (Some v) = v"

text \<open>
  \<^verbatim>\<open>
  async updatePreferencesInFirebase(type, value) {
      if (!firebase || !firebase.firestore || !this.userProfile.ip) return;
      try {
          const db = firebase.firestore();
          const userDocRef = db.collection('users_by_ip').doc(this.userProfile.ip);
          let updateObj = {};
          switch (type) {
              case 'category':
                  updateObj[`preferences.categories.${value}`] = FieldValue.increment(1);
                  updateObj[`preferences.mostViewedType`] =
                      this.sessionData.casinoPreferences.typePreference;
                  break;
              case 'amenity':
                  updateObj[`preferences.amenities.${value}`] = FieldValue.increment(1); break;
              case 'rating':
                  updateObj[`preferences.ratingPreference`] = value; break;
              case 'distance':
                  updateObj[`preferences.distancePreference`] = value; break;
              case 'click':
                  updateObj[`preferences.clicked.${value}`] = FieldValue.increment(1); break;
          }
          await userDocRef.update(updateObj);
          await userDocRef.collection('user_events').add({ eventType: 'preference',
              preferenceType: type, value: value,
              timestamp: FieldValue.serverTimestamp(), sessionId: this.sessionId });
      } catch (error) { console.error("Error updating preferences in Firebase:", error); }
  }
  \<close>
\<close>

definition updateObj :: "string \<Rightarrow> string option \<Rightarrow> state \<Rightarrow> payload" where
  "updateObj kind v s =
     (if kind = ''category''
      then assign [(''preferences.categories.'' @ keyOf v, Increment 1)]
             ''preferences.mostViewedType'' (ofString (typePreference (prefs (session s))))
      else if kind = ''amenity'' then [(''preferences.amenities.'' @ keyOf v, Increment 1)]
      else if kind = ''rating'' then [(''preferences.ratingPreference'', ofString v)]
      else if kind = ''distance'' then [(''preferences.distancePreference'', ofString v)]
      else if kind = ''click'' then [(''preferences.clicked.'' @ keyOf v, Increment 1)]
      else [])"

definition updatePreferencesInFirebase :: "string \<Rightarrow> string option \<Rightarrow> state \<Rightarrow> outcome" where
  "updatePreferencesInFirebase kind v s =
     (if firebase (page s) = Undeclared then Threw ReferenceError s
      else Returned
       (if \<not> firestoreReady s then s
        else case ip (profile s) of
        None \<Rightarrow> s
      | Some a \<Rightarrow>
          if a = [] then s
          else if \<not> online (store s)
          then consoleLog (Failure ''Error updating preferences in Firebase:'') s
          else (case users_by_ip (store s) a of
                  None \<Rightarrow> consoleLog (Failure ''Error updating preferences in Firebase:'') s
                | Some d \<Rightarrow>
                    s\<lparr>store := (store s)
                       \<lparr>users_by_ip := (users_by_ip (store s))
                          (a \<mapsto> writeFields d (updateObj kind v s)),
                        user_events := user_events (store s)
                          @ [(a, [(''eventType'', Str ''preference''),
                                  (''preferenceType'', Str kind),
                                  (''value'', ofString v),
                                  (''timestamp'', ServerTimestamp),
                                  (''sessionId'', Str (sessionId s))])]\<rparr>\<rparr>)))"

text \<open>
  \<^verbatim>\<open>
  logCasinoPreference(type, value) {
      switch (type) {
          case 'category':
              if (!this.sessionData.casinoPreferences.viewed[value]) {
                  this.sessionData.casinoPreferences.viewed[value] = 0;
              }
              this.sessionData.casinoPreferences.viewed[value]++;
              this.sessionData.casinoPreferences.typePreference =
                  this.getMostFrequent(this.sessionData.casinoPreferences.viewed);
              break;
          case 'click':   ... clicked[value] counted the same way ...
          case 'amenity': ... amenitiesSelected[value] counted the same way ...
      }
      this.logEvent('casino_preference', { preferenceType: type, value: value,
          count: this.sessionData.casinoPreferences.viewed[value] || 1 });
      this.updatePreferencesInFirebase(type, value);
  }
  \<close>
  The \<open>switch\<close> has no case for \<open>'rating'\<close> or \<open>'distance'\<close> and no default: for those
  kinds nothing in memory changes before the event is logged.
  \<open>updatePreferencesInFirebase\<close> is not awaited: its promise is dropped.
\<close>

definition countPreference :: "string \<Rightarrow> string option \<Rightarrow> casinoPreferences \<Rightarrow> casinoPreferences" where
  "countPreference kind v p =
     (if kind = ''category''
      then (let p1 = p\<lparr>viewed := bump (viewed p) (keyOf v)\<rparr>
            in p1\<lparr>typePreference := getMostFrequent (viewed p1)\<rparr>)
      else if kind = ''click'' then p\<lparr>clicked := bump (clicked p) (keyOf v)\<rparr>
      else if kind = ''amenity'' then p\<lparr>amenitiesSelected := bump (amenitiesSelected p) (keyOf v)\<rparr>
      else p)"

definition logCasinoPreference :: "int \<Rightarrow> string \<Rightarrow> string option \<Rightarrow> state \<Rightarrow> outcome" where
  "logCasinoPreference now kind v s =
     (let s1 = s\<lparr>session := (session s)\<lparr>prefs := countPreference kind v (prefs (session s))\<rparr>\<rparr>
      in andThen
           (logEvent now ''casino_preference''
              [(''preferenceType'', Str kind),
               (''value'', ofString v),
               (''count'', orElse (getProp (viewed (prefs (session s1))) (keyOf v))
                                  (Number (Num 1)))] s1)
           (\<lambda>s2. Returned (stateOf (updatePreferencesInFirebase kind v s2))))"

subsection \<open>The listeners\<close>

text \<open>
  \<^verbatim>\<open>
  document.querySelectorAll('.category-card').forEach(card => {
      card.addEventListener('click', () => {
          const category = card.getAttribute('data-category');
          this.logCasinoPreference('category', category);
      });
  });
  document.querySelectorAll('.filter-item').forEach(item => {
      item.addEventListener('click', () => {
          if (item.hasAttribute('data-amenity')) {
              this.logCasinoPreference('amenity', item.getAttribute('data-amenity')); }
          if (item.hasAttribute('data-rating')) {
              this.logCasinoPreference('rating', item.getAttribute('data-rating')); }
          if (item.hasAttribute('data-distance')) {
              this.logCasinoPreference('distance', item.getAttribute('data-distance')); }
      });
  });
  const searchForm = document.getElementById('searchForm');
  if (searchForm) {
      searchForm.addEventListener('submit', (e) => {
          const searchInput = document.getElementById('searchInput');
          if (searchInput && searchInput.value) { this.logSearch(searchInput.value); }
      });
  }
  \<close>
  A card or a filter item is named by its position on the page; \<open>searchInput\<close> is the
  value of the input element, when the element exists.
\<close>

definition onCardClick :: "int \<Rightarrow> nat \<Rightarrow> state \<Rightarrow> outcome" where
  "onCardClick now i s =
     (if i < length (categoryCards (page s))
      then logCasinoPreference now ''category'' (categoryCards (page s) ! i) s
      else Returned s)"

definition onFilterClick :: "int \<Rightarrow> nat \<Rightarrow> state \<Rightarrow> outcome" where
  "onFilterClick now i s =
     (if i < length (filterItems (page s))
      then
        (let item = filterItems (page s) ! i
         in andThen
              (andThen
                 (case amenity item of
                    None \<Rightarrow> Returned s
                  | Some a \<Rightarrow> logCasinoPreference now ''amenity'' (Some a) s)
                 (\<lambda>s1. case rating item of
                    None \<Rightarrow> Returned s1
                  | Some r \<Rightarrow> logCasinoPreference now ''rating'' (Some r) s1))
              (\<lambda>s2. case distance item of
                 None \<Rightarrow> Returned s2
               | Some d \<Rightarrow> logCasinoPreference now ''distance'' (Some d) s2))
      else Returned s)"

definition onSearchSubmit :: "int \<Rightarrow> state \<Rightarrow> outcome" where
  "onSearchSubmit now s =
     (case searchInput (page s) of
        None \<Rightarrow> Returned s
      | Some q \<Rightarrow> if q \<noteq> [] then logSearch now q [] s else Returned s)"

text \<open>
  The events of the page, and their delivery: every registered listener whose target
  and type match runs, in the order of registration. A listener that throws does not
  stop the delivery: the exception is reported on the console and the next listener
  runs.
\<close>

datatype domEvent =
    CardClicked nat
  | FilterClicked nat
  | SearchSubmitted
  | AuthStateChanged authEvent

fun deliver :: "int \<Rightarrow> domEvent \<Rightarrow> listener \<Rightarrow> state \<Rightarrow> outcome" where
  "deliver now (CardClicked i) (OnCardClick j) s =
     (if i = j then onCardClick now j s else Returned s)"
| "deliver now (FilterClicked i) (OnFilterClick j) s =
     (if i = j then onFilterClick now j s else Returned s)"
| "deliver now SearchSubmitted OnSearchSubmit s = onSearchSubmit now s"
| "deliver now (AuthStateChanged ev) OnAuthStateChanged s = handleAuthChange now ev s"
| "deliver now _ _ s = Returned s"

definition report :: "outcome \<Rightarrow> state" where
  "report r =
     (case r of
        Returned s \<Rightarrow> s
      | Threw e s \<Rightarrow> consoleLog (Failure ''Uncaught ReferenceError: firebase is not defined'') s)"

definition dispatch :: "int \<Rightarrow> domEvent \<Rightarrow> state \<Rightarrow> state" where
  "dispatch now ev s = fold (\<lambda>l s'. report (deliver now ev l s')) (listeners (page s)) s"

subsection \<open>Insight summary\<close>

text \<open>
  \<^verbatim>\<open>
  getTopInterests() {
      const interests = {};
      for (const type in this.sessionData.casinoPreferences.viewed) {
          interests[type] = this.sessionData.casinoPreferences.viewed[type];
      }
      return Object.entries(interests)
          .sort((a, b) => b[1] - a[1]).slice(0, 3).map(entry => entry[0]);
  }
  \<close>
  The comparator's result \<open>b[1] - a[1]\<close> is \<open>NaN\<close> when a count is \<open>NaN\<close>, which \<open>sort\<close>
  reads as 0: an entry with the count \<open>NaN\<close> compares equal to every entry. When the
  other counts are not all the same number, the comparator is then not a consistent
  comparison function, and the language leaves the resulting order to the
  implementation: the model gives no order in that case (\<open>None\<close>). In every other case
  \<open>sort\<close> is the stable sort by descending count, written here as insertion from the
  left, each entry placed before the first one it must precede.
\<close>

fun precedes :: "string \<times> jsnum \<Rightarrow> string \<times> jsnum \<Rightarrow> bool" where
  "precedes (ka, Num a) (kb, Num b) = (b - a < 0)"
| "precedes _ _ = False"

fun insertSorted :: "string \<times> jsnum \<Rightarrow> jsobj \<Rightarrow> jsobj" where
  "insertSorted x [] = [x]"
| "insertSorted x (y # ys) = (if precedes x y then x # y # ys else y # insertSorted x ys)"

definition sortDescending :: "jsobj \<Rightarrow> jsobj" where
  "sortDescending xs = foldl (\<lambda>acc x. insertSorted x acc) [] xs"

definition consistentCounts :: "jsobj \<Rightarrow> bool" where
  "consistentCounts xs =
     (list_all (\<lambda>(k, v). v \<noteq> NaN) xs
      \<or> length (remdups (filter (\<lambda>v. v \<noteq> NaN) (map snd xs))) \<le> 1)"

definition getTopInterests :: "state \<Rightarrow> string list option" where
  "getTopInterests s =
     (let interests = fold (\<lambda>(k, n) acc. setProp acc k n) (forIn (viewed (prefs (session s)))) []
      in if consistentCounts (forIn interests)
         then Some (map fst (take 3 (sortDescending (forIn interests))))
         else None)"

text \<open>
  \<^verbatim>\<open>
  getUserInsights() {
      return {
          profile: { isNewUser: !this.userProfile.returning,
                     visits: this.previousVisits + 1,
                     location: this.userProfile.location },
          behavior: { sessionDuration: Math.floor((new Date() - this.sessionStartTime) / 1000),
                      pageViews: this.sessionData.pageViews,
                      searchCount: this.sessionData.searches.length,
                      mainInterests: this.getTopInterests(),
                      primaryCasinoType: this.sessionData.casinoPreferences.typePreference },
          preferences: { casinoTypes: this.sessionData.casinoPreferences.viewed,
                         amenities: this.sessionData.casinoPreferences.amenitiesSelected }
      };
  }
  \<close>
  \<open>undefined + 1\<close> is \<open>NaN\<close>.
\<close>

record insights =
  profile_isNewUser :: bool
  profile_visits :: jsnum
  profile_location :: payload
  behavior_sessionDuration :: int
  behavior_pageViews :: int
  behavior_searchCount :: nat
  behavior_mainInterests :: "string list option"
  behavior_primaryCasinoType :: "string option"
  preferences_casinoTypes :: jsobj
  preferences_amenities :: jsobj

definition getUserInsights :: "int \<Rightarrow> state \<Rightarrow> insights" where
  "getUserInsights now s =
     \<lparr> profile_isNewUser = (\<not> returning (profile s)),
       profile_visits = plusOne (toNumber (ofNumber (previousVisits s))),
       profile_location = location (profile s),
       behavior_sessionDuration = durationSeconds now s,
       behavior_pageViews = pageViews (session s),
       behavior_searchCount = length (searches (session s)),
       behavior_mainInterests = getTopInterests s,
       behavior_primaryCasinoType = typePreference (prefs (session s)),
       preferences_casinoTypes = viewed (prefs (session s)),
       preferences_amenities = amenitiesSelected (prefs (session s)) \<rparr>"

subsection \<open>Content posting\<close>

text \<open>
  \<open>createPostElement(post)\<close> builds a \<open>div\<close> with the user name, the text and, when
  \<open>post.videoUrl\<close> is set, a video; \<open>createAdElement()\<close> builds the promotional block.
\<close>

definition createPostElement :: "post \<Rightarrow> element" where
  "createPostElement p = PostDiv (postUsername p) (postText p) (videoUrl p)"

definition createAdElement :: element where
  "createAdElement = AdDiv"

text \<open>
  \<open>querySnapshot\<close> is the \<open>QuerySnapshot\<close> of the store's client, the object that
  \<open>firebase.firestore()\<close> gives. Its \<open>forEach(callback)\<close> calls the callback once per
  document, in the order of the query result, with one argument: the document. Unlike
  \<open>Array.prototype.forEach\<close> it passes no position, so a second parameter of the callback
  is \<open>undefined\<close> in every call.
\<close>

definition snapshotForEach :: "('d \<Rightarrow> jsval \<Rightarrow> 'c \<Rightarrow> 'c) \<Rightarrow> 'd list \<Rightarrow> 'c \<Rightarrow> 'c" where
  "snapshotForEach f docs c = fold (\<lambda>d. f d Undefined) docs c"

text \<open>
  The callback of \<open>loadPosts\<close>, acting on the children of the container:
  \<^verbatim>\<open>
  (doc, index) => {
      const post = doc.data();
      const postElement = this.createPostElement(post);
      // Insert ad after every 5 posts
      if (index > 0 && index % 5 === 0) {
          const adElement = this.createAdElement();
          postsContainer.appendChild(adElement);
      }
      postsContainer.appendChild(postElement);
  }
  \<close>
  \<open>index > 0 && index % 5 === 0\<close> is \<open>adDue\<close>, for an index that is a number or
  \<open>undefined\<close>: \<open>undefined > 0\<close> is false.
\<close>

fun adDue :: "jsval \<Rightarrow> bool" where
  "adDue (Number (Num n)) = (0 < n \<and> n mod 5 = 0)"
| "adDue _ = False"

definition renderPost :: "post \<Rightarrow> jsval \<Rightarrow> element list \<Rightarrow> element list" where
  "renderPost p index children =
     (let postElement = createPostElement p;
          children1 = (if adDue index then children @ [createAdElement] else children)
      in children1 @ [postElement])"

text \<open>
  \<^verbatim>\<open>
  async loadPosts() {
      if (!firebase || !firebase.firestore) {
          console.error("Firebase not initialized."); return;
      }
      try {
          const db = firebase.firestore();
          const postsContainer = document.getElementById("postsContainer");
          postsContainer.innerHTML = ""; // Clear existing posts
          const querySnapshot = await db.collection("posts").orderBy("timestamp", "desc").get();
          querySnapshot.forEach((doc, index) => { ... });
      } catch (error) { console.error("Error loading posts:", error); }
  }
  \<close>
  When the page has no \<open>#postsContainer\<close>, assigning \<open>innerHTML\<close> throws and the
  \<open>catch\<close> logs it.
\<close>

definition loadPosts :: "state \<Rightarrow> outcome" where
  "loadPosts s =
     (if firebase (page s) = Undeclared then Threw ReferenceError s
      else Returned
       (if \<not> firestoreReady s then consoleLog (Failure ''Firebase not initialized.'') s
        else case postsContainer (page s) of
             None \<Rightarrow> consoleLog (Failure ''Error loading posts:'') s
           | Some old \<Rightarrow>
               (let s1 = s\<lparr>page := (page s)\<lparr>postsContainer := Some []\<rparr>\<rparr>
                in if \<not> online (store s1) then consoleLog (Failure ''Error loading posts:'') s1
                   else s1\<lparr>page := (page s1)
                           \<lparr>postsContainer :=
                              Some (snapshotForEach renderPost (posts (store s1)) [])\<rparr>\<rparr>)))"

text \<open>\<open>x || d\<close> on a nullable string.\<close>

definition orString :: "string option \<Rightarrow> string \<Rightarrow> string" where
  "orString x d = (case x of None \<Rightarrow> d | Some u \<Rightarrow> if u = [] then d else u)"

text \<open>
  \<^verbatim>\<open>
  async createPost(text, videoFile) {
      if (!firebase || !firebase.firestore || !firebase.storage) {
          console.error("Firebase not initialized."); return;
      }
      try {
          const db = firebase.firestore();
          const storage = firebase.storage();
          const userId = this.userId || "anonymous";
          let videoUrl = null;
          if (videoFile) {
              const videoRef = storage.ref(`posts/${userId}/${Date.now()}_${videoFile.name}`);
              const snapshot = await videoRef.put(videoFile);
              videoUrl = await snapshot.ref.getDownloadURL();
          }
          const post = { userId, username: this.userProfile.username || "Anonymous",
                         text, videoUrl, timestamp: FieldValue.serverTimestamp() };
          await db.collection("posts").add(post);
          console.log("Post created:", post);
          this.loadPosts();
      } catch (error) { console.error("Error creating post:", error); }
  }
  \<close>
  \<open>videoFile\<close> is the name of the chosen file, if one was chosen. \<open>MediaRef u t n\<close> stands
  for the URL the storage service gives for the path \<open>posts/u/t_n\<close>. \<open>loadPosts\<close> is not
  awaited: its promise is dropped.
\<close>

definition newPost :: "int \<Rightarrow> string \<Rightarrow> string option \<Rightarrow> state \<Rightarrow> post" where
  "newPost now txt videoFile s =
     (let uid = orString (userId s) ''anonymous''
      in \<lparr> postUserId = uid,
           postUsername = orString (username (profile s)) ''Anonymous'',
           postText = txt,
           videoUrl = map_option (\<lambda>name. MediaRef uid now name) videoFile \<rparr>)"

definition createPost :: "int \<Rightarrow> string \<Rightarrow> string option \<Rightarrow> state \<Rightarrow> outcome" where
  "createPost now txt videoFile s =
     (if firebase (page s) = Undeclared then Threw ReferenceError s
      else Returned
       (if \<not> firestoreReady s \<or> \<not> storageReady s
        then consoleLog (Failure ''Firebase not initialized.'') s
        else if \<not> online (store s) then consoleLog (Failure ''Error creating post:'') s
        else
          (let p = newPost now txt videoFile s;
               s1 = s\<lparr>store := (store s)
                      \<lparr>uploads := uploads (store s)
                         @ (case videoUrl p of None \<Rightarrow> [] | Some r \<Rightarrow> [r]),
                       posts := p # posts (store s)\<rparr>\<rparr>
           in stateOf (loadPosts (consoleLog (Info ''Post created:'') s1)))))"

subsection \<open>Sessions as sequences of calls\<close>

text \<open>
  A session is the constructor followed by calls of the instance's methods and
  events of the page, each with the clock reading at that moment. The store's
  reachability may change in between. A call that throws, or whose promise is
  rejected, leaves the state it had reached, and the session goes on from there.
\<close>

datatype call =
    Initialize fetchResult
  | CheckReturningUser
  | HandleAuthChange authEvent
  | LinkUserWithIP
  | SetupEventListeners
  | LogPageView
  | LogSearch string payload
  | LogCasinoPreference string "string option"
  | UpdatePreferencesInFirebase string "string option"
  | LogEvent string payload
  | CreatePost string "string option"
  | LoadPosts
  | Dispatch domEvent
  | Connectivity bool

fun exec :: "int \<times> call \<Rightarrow> state \<Rightarrow> outcome" where
  "exec (now, Initialize r) s = initialize now r s"
| "exec (now, CheckReturningUser) s = checkReturningUser s"
| "exec (now, HandleAuthChange ev) s = handleAuthChange now ev s"
| "exec (now, LinkUserWithIP) s = linkUserWithIP s"
| "exec (now, SetupEventListeners) s = Returned (setupEventListeners s)"
| "exec (now, LogPageView) s = logPageView now s"
| "exec (now, LogSearch q fs) s = logSearch now q fs s"
| "exec (now, LogCasinoPreference kind v) s = logCasinoPreference now kind v s"
| "exec (now, UpdatePreferencesInFirebase kind v) s = updatePreferencesInFirebase kind v s"
| "exec (now, LogEvent t d) s = logEvent now t d s"
| "exec (now, CreatePost txt f) s = createPost now txt f s"
| "exec (now, LoadPosts) s = loadPosts s"
| "exec (now, Dispatch ev) s = Returned (dispatch now ev s)"
| "exec (now, Connectivity b) s = Returned (s\<lparr>store := (store s)\<lparr>online := b\<rparr>\<rparr>)"

definition run :: "(int \<times> call) list \<Rightarrow> state \<Rightarrow> state" where
  "run calls s = fold (\<lambda>c s'. stateOf (exec c s')) calls s"

text \<open>
  The calls that run \<open>logPageView\<close> on a given page: a direct call, and an \<open>initialize\<close>
  that gets as far as that step, which it does when its request succeeded and the
  awaited \<open>checkReturningUser\<close> was not rejected at its guard.
\<close>

fun callsLogPageView :: "page \<Rightarrow> call \<Rightarrow> bool" where
  "callsLogPageView pg LogPageView = True"
| "callsLogPageView pg (Initialize (Resolved a geo)) = (firebase pg \<noteq> Undeclared)"
| "callsLogPageView pg _ = False"

text \<open>
  The value given by the last call of \<open>logCasinoPreference\<close> of one kind in a sequence of
  such calls (time, kind, value), if there was one.
\<close>

definition lastWritten :: "string \<Rightarrow> (int \<times> string \<times> string option) list \<Rightarrow> string option option" where
  "lastWritten kind calls =
     (let same = filter (\<lambda>(now, k, v). k = kind) calls
      in if same = [] then None else Some (snd (snd (last same))))"

text \<open>
  The caller record's field for a scalar preference:
  \<open>preferences.ratingPreference\<close>, \<open>preferences.distancePreference\<close>; and the
  record after a sequence of scalar writes, each one an overwrite of that field.
\<close>

definition scalarPath :: "string \<Rightarrow> string" where
  "scalarPath kind = ''preferences.'' @ kind @ ''Preference''"

fun writeScalars :: "doc \<Rightarrow> (int \<times> string \<times> string option) list \<Rightarrow> doc" where
  "writeScalars d [] = d"
| "writeScalars d ((now, kind, v) # calls) =
     writeScalars (assign d (scalarPath kind) (ofString v)) calls"

definition preferenceCalls :: "(int \<times> string \<times> string option) list \<Rightarrow> (int \<times> call) list" where
  "preferenceCalls calls = map (\<lambda>(now, k, v). (now, LogCasinoPreference k v)) calls"

subsection \<open>A sample page and store\<close>

text \<open>
  A store with no records, and a page with the SDK loaded (no analytics product), two
  category cards, one filter item, a search form and an empty posts container. The
  tracker constructed on them at time 0 is the starting point of the concrete sessions
  below.
\<close>

definition emptyStore :: store where
  "emptyStore =
     \<lparr> online = True, users_by_ip = Map.empty, user_events = [], session_events = [],
       sessions = Map.empty, user_mappings = Map.empty, uploads = [], posts = [],
       analyticsSink = [] \<rparr>"

definition plainPage :: page where
  "plainPage =
     \<lparr> firebase = Declared (Some \<lparr>firestoreLoaded = True, storageLoaded = True,
                                   analyticsLoaded = False\<rparr>),
       userAgent = ''Mozilla/5.0 (X11; Linux x86_64) AppleWebKit/537.36 Chrome/120.0 Safari/537.36'',
       pathname = ''/'', title = ''Casinos'', referrer = [], navigationStart = 0,
       categoryCards = [Some ''tribal'', Some ''resort''],
       filterItems = [\<lparr>amenity = Some ''spa'', rating = None, distance = None\<rparr>],
       hasSearchForm = True, searchInput = Some ''poker'', postsContainer = Some [],
       listeners = [], console = [] \<rparr>"

definition freshTracker :: state where
  "freshTracker = newTracker 0 ''k3x9'' emptyStore plainPage"

text \<open>
  The tracker after an initialization that resolved the address \<open>203.0.113.7\<close>, seen
  for the first time.
\<close>

definition knownVisitor :: state where
  "knownVisitor = stateOf (initialize 1 (Resolved (Some ''203.0.113.7'') []) freshTracker)"

text \<open>The tracker constructed on the same page without the SDK's script.\<close>

definition bareTracker :: state where
  "bareTracker = newTracker 0 ''k3x9'' emptyStore (plainPage\<lparr>firebase := Undeclared\<rparr>)"

text \<open>
  The same tracker on a store that holds twelve posts, with a stale promotional block
  left in the container by an earlier rendering; and the same with the store
  unreachable.
\<close>

definition samplePost :: "string \<Rightarrow> post" where
  "samplePost t =
     \<lparr> postUserId = ''anonymous'', postUsername = ''Anonymous'', postText = t, videoUrl = None \<rparr>"

definition twelvePosts :: state where
  "twelvePosts =
     newTracker 0 ''k3x9''
       (emptyStore\<lparr>posts := map samplePost
          [''l'', ''k'', ''j'', ''i'', ''h'', ''g'', ''f'', ''e'', ''d'', ''c'', ''b'', ''a'']\<rparr>)
       (plainPage\<lparr>postsContainer := Some [AdDiv]\<rparr>)"

definition twelvePostsOffline :: state where
  "twelvePostsOffline = twelvePosts\<lparr>store := (store twelvePosts)\<lparr>online := False\<rparr>\<rparr>"

section \<open>Properties\<close>

subsection \<open>Substring search\<close>

lemma indexOfFrom_found: "sublist tok s \<Longrightarrow> int i \<le> indexOfFrom s tok i"
proof (induction s arbitrary: i)
  case Nil
  then show ?case by simp
next
  case (Cons c cs)
  show ?case
  proof (cases "prefix tok (c # cs)")
    case True
    then show ?thesis by simp
  next
    case False
    with Cons.prems have "sublist tok cs"
      by (metis sublist_Cons_right)
    then have "int (Suc i) \<le> indexOfFrom cs tok (Suc i)"
      by (rule Cons.IH)
    with False show ?thesis by simp
  qed
qed

lemma indexOfFrom_missing: "\<not> sublist tok s \<Longrightarrow> indexOfFrom s tok i = - 1"
proof (induction s arbitrary: i)
  case Nil
  then show ?case by auto
next
  case (Cons c cs)
  from Cons.prems have np: "\<not> prefix tok (c # cs)" and ns: "\<not> sublist tok cs"
    by (auto simp: sublist_Cons_right)
  from ns have "indexOfFrom cs tok (Suc i) = - 1"
    by (rule Cons.IH)
  with np show ?case by simp
qed

lemma indexOf_contains: "(indexOf s tok > - 1) = sublist tok s"
proof (cases "sublist tok s")
  case True
  then have "int 0 \<le> indexOfFrom s tok 0"
    by (rule indexOfFrom_found)
  with True show ?thesis by (simp add: indexOf_def)
next
  case False
  then have "indexOfFrom s tok 0 = - 1"
    by (rule indexOfFrom_missing)
  with False show ?thesis by (simp add: indexOf_def)
qed


subsection \<open>Browser classification\<close>

text \<open>
  Claim C8. \<open>getBrowserInfo\<close> checks the tokens in the fixed order Chrome, Safari,
  Firefox, MSIE or Trident (reported as IE), Edge, and answers Unknown otherwise; the
  first token that occurs in the user agent decides. In particular a user agent that
  contains both Chrome and Safari is classified as Chrome. Occurrence is stated
  independently of the search loop, as \<open>sublist\<close>.
\<close>

theorem getBrowserInfo_priority:
  "getBrowserInfo ua =
     (if sublist ''Chrome'' ua then ''Chrome''
      else if sublist ''Safari'' ua then ''Safari''
      else if sublist ''Firefox'' ua then ''Firefox''
      else if sublist ''MSIE'' ua \<or> sublist ''Trident'' ua then ''IE''
      else if sublist ''Edge'' ua then ''Edge''
      else ''Unknown'')
   \<and> (sublist ''Chrome'' ua \<and> sublist ''Safari'' ua \<longrightarrow> getBrowserInfo ua = ''Chrome'')"
proof -
  have chain: "getBrowserInfo ua =
     (if sublist ''Chrome'' ua then ''Chrome''
      else if sublist ''Safari'' ua then ''Safari''
      else if sublist ''Firefox'' ua then ''Firefox''
      else if sublist ''MSIE'' ua \<or> sublist ''Trident'' ua then ''IE''
      else if sublist ''Edge'' ua then ''Edge''
      else ''Unknown'')"
    unfolding getBrowserInfo_def by (simp only: indexOf_contains)
  have "getBrowserInfo ua = ''Chrome''" if "sublist ''Chrome'' ua"
    using that by (simp add: chain)
  with chain show ?thesis by simp
qed

theorem getBrowserInfo_priority_witness:
  "sublist ''Chrome'' ''Mozilla/5.0 (X11) AppleWebKit/537.36 Chrome/120.0 Safari/537.36''
   \<and> sublist ''Safari'' ''Mozilla/5.0 (X11) AppleWebKit/537.36 Chrome/120.0 Safari/537.36''
   \<and> getBrowserInfo ''Mozilla/5.0 (X11) AppleWebKit/537.36 Chrome/120.0 Safari/537.36''
       = ''Chrome''"
  using getBrowserInfo_priority
          [of "''Mozilla/5.0 (X11) AppleWebKit/537.36 Chrome/120.0 Safari/537.36''"]
  by (simp add: sublist_code)

subsection \<open>Assignment and counting\<close>

lemma map_of_assign: "map_of (assign d k v) k' = (if k' = k then Some v else map_of d k')"
  by (induction d) auto

lemma keys_assign: "fst ` set (assign d k v) = insert k (fst ` set d)"
  by (induction d k v rule: assign.induct) auto

lemma distinct_assign: "distinct (map fst d) \<Longrightarrow> distinct (map fst (assign d k v))"
proof (induction d)
  case Nil
  then show ?case by simp
next
  case (Cons e d)
  obtain k' w where e: "e = (k', w)" by (cases e)
  show ?case
  proof (cases "k' = k")
    case True
    with Cons.prems show ?thesis by (simp add: e)
  next
    case False
    from Cons.prems have "k' \<notin> fst ` set d" and "distinct (map fst d)"
      by (simp_all add: e)
    with False Cons.IH show ?thesis
      by (simp add: e keys_assign)
  qed
qed

lemma only_entry:
  "distinct (map fst d) \<Longrightarrow> map_of d k = Some v \<Longrightarrow> filter (\<lambda>e. fst e = k) d = [(k, v)]"
proof (induction d)
  case Nil
  then show ?case by simp
next
  case (Cons e d)
  obtain k' w where e: "e = (k', w)" by (cases e)
  show ?case
  proof (cases "k' = k")
    case True
    with Cons.prems have "w = v" and "k \<notin> fst ` set d"
      by (simp_all add: e)
    then have "filter (\<lambda>e. fst e = k) d = []"
      by (auto simp: filter_empty_conv)
    with True \<open>w = v\<close> show ?thesis by (simp add: e)
  next
    case False
    with Cons show ?thesis by (simp add: e)
  qed
qed

lemma assign_absent: "map_of obj k = None \<Longrightarrow> assign obj k v = obj @ [(k, v)]"
  by (induction obj k v rule: assign.induct) (auto split: if_splits)

lemma assign_twice: "assign (assign obj k v) k w = assign obj k w"
  by (induction obj k v rule: assign.induct) auto

text \<open>
  The counting idiom on a label that is not the name of a member of
  \<open>Object.prototype\<close>: the first call creates the entry with count 1, at the end; a later
  call adds 1 in place.
\<close>

lemma bump_first:
  assumes "map_of obj k = None" and "k \<noteq> ''__proto__''" and "k \<notin> set objectPrototypeMembers"
  shows "bump obj k = obj @ [(k, Num 1)]"
proof -
  have undefined: "getProp obj k = Undefined"
    using assms by (simp add: getProp_def)
  have zero: "getProp (assign obj k (Num 0)) k = Number (Num 0)"
    by (simp add: getProp_def map_of_assign)
  have "bump obj k = assign (assign obj k (Num 0)) k (Num 1)"
    using assms(2) undefined zero by (simp add: bump_def setProp_def Let_def addOne_def)
  also have "\<dots> = assign obj k (Num 1)"
    by (rule assign_twice)
  also have "\<dots> = obj @ [(k, Num 1)]"
    using assms(1) by (rule assign_absent)
  finally show ?thesis .
qed

lemma bump_again:
  assumes "map_of obj k = Some (Num n)" and "n \<noteq> 0" and "k \<noteq> ''__proto__''"
  shows "bump obj k = assign obj k (Num (addOne n))"
proof -
  have "getProp obj k = Number (Num n)"
    using assms by (simp add: getProp_def)
  then show ?thesis
    using assms by (simp add: bump_def setProp_def Let_def)
qed

text \<open>
  On the name of an inherited function the first call stores \<open>NaN\<close> (the function is
  truthy, and a function plus one is \<open>NaN\<close>); \<open>__proto__\<close> is never stored.
\<close>

lemma bump_inherited:
  "bump [] ''toString'' = [(''toString'', NaN)]"
  "bump [(''toString'', NaN)] ''toString'' = [(''toString'', Num 1)]"
  "bump [] ''__proto__'' = []"
  by (simp_all add: bump_def getProp_def setProp_def objectPrototypeMembers_def addOne_def)

subsection \<open>The most frequent category\<close>

lemma positiveCounts_Cons:
  "positiveCounts ((k, v) # xs) =
     (case v of Num n \<Rightarrow> if 0 < n then [n] else [] | NaN \<Rightarrow> []) @ positiveCounts xs"
  by (simp add: positiveCounts_def)

lemma positiveCounts_Nil: "positiveCounts [] = []"
  by (simp add: positiveCounts_def)

lemma atMax_skip:
  assumes "Max (set (positiveCounts ((k, v) # xs))) = Max (set (positiveCounts xs))"
    and "v \<noteq> Num (Max (set (positiveCounts xs)))"
  shows "atMax ((k, v) # xs) = atMax xs"
  using assms by (simp add: atMax_def)

lemma atMax_hit:
  assumes "Max (set (positiveCounts ((k, Num n) # xs))) = n"
  shows "atMax ((k, Num n) # xs) = (Num n, Some k)"
  using assms by (simp add: atMax_def)

lemma Max_above:
  fixes n :: int
  assumes "a \<in> set ns" "n < a"
  shows "n < Max (set ns)"
proof -
  have "a \<le> Max (set ns)" using assms(1) by simp
  with assms(2) show ?thesis by simp
qed

lemma Max_absorb_small:
  fixes n :: int
  assumes "a \<in> set ns" "n < a"
  shows "Max (set (n # ns)) = Max (set ns)"
proof -
  have ne: "set ns \<noteq> {}" using assms by auto
  have "n < Max (set ns)"
    using assms by (rule Max_above)
  then show ?thesis
    using ne by (simp add: max_def)
qed

lemma Max_head:
  fixes n :: int
  assumes "\<forall>a \<in> set ns. a \<le> n"
  shows "Max (set (n # ns)) = n"
  using assms by (intro Max_eqI) auto

lemma scanMax_char:
  "0 \<le> m \<Longrightarrow>
   scanMax xs (Num m, key) =
     (if \<exists>n \<in> set (positiveCounts xs). m < n then atMax xs else (Num m, key))"
proof (induction xs arbitrary: m key)
  case Nil
  then show ?case by (simp add: positiveCounts_Nil)
next
  case (Cons x xs)
  obtain k v where x: "x = (k, v)" by (cases x)
  show ?case
  proof (cases "gt v (Num m)")
    case True
    then obtain n where v: "v = Num n" and mn: "m < n"
      by (cases v) auto
    with Cons.prems have n0: "0 < n" "0 \<le> n" by auto
    have pc: "positiveCounts (x # xs) = n # positiveCounts xs"
      using n0 by (simp add: x v positiveCounts_Cons)
    have step: "scanMax (x # xs) (Num m, key) = scanMax xs (Num n, Some k)"
      using True by (simp add: x v)
    have ex: "\<exists>n' \<in> set (positiveCounts (x # xs)). m < n'"
      using mn by (simp add: pc)
    show ?thesis
    proof (cases "\<exists>n' \<in> set (positiveCounts xs). n < n'")
      case T2: True
      then obtain a where a: "a \<in> set (positiveCounts xs)" "n < a" by blast
      have mx: "Max (set (positiveCounts (x # xs))) = Max (set (positiveCounts xs))"
        unfolding pc using a by (rule Max_absorb_small)
      have "n < Max (set (positiveCounts xs))"
        using a by (rule Max_above)
      then have "v \<noteq> Num (Max (set (positiveCounts xs)))"
        by (simp add: v)
      with mx have "atMax (x # xs) = atMax xs"
        unfolding x by (rule atMax_skip)
      with step ex T2 Cons.IH [OF n0(2), of "Some k"] show ?thesis
        by simp
    next
      case F2: False
      then have "\<forall>a \<in> set (positiveCounts xs). a \<le> n" by auto
      then have "Max (set (positiveCounts (x # xs))) = n"
        unfolding pc by (rule Max_head)
      then have "atMax (x # xs) = (Num n, Some k)"
        unfolding x v by (rule atMax_hit)
      with step ex F2 Cons.IH [OF n0(2), of "Some k"] show ?thesis
        by simp
    qed
  next
    case False
    then have step: "scanMax (x # xs) (Num m, key) = scanMax xs (Num m, key)"
      by (simp add: x)
    from False have small: "\<forall>a \<in> set (positiveCounts [x]). a \<le> m"
      by (cases v) (auto simp: x positiveCounts_Cons positiveCounts_Nil)
    have pcs: "positiveCounts (x # xs) = positiveCounts [x] @ positiveCounts xs"
      by (simp add: positiveCounts_def)
    have exiff: "(\<exists>n' \<in> set (positiveCounts (x # xs)). m < n')
                 = (\<exists>n' \<in> set (positiveCounts xs). m < n')"
      using small unfolding pcs by auto
    show ?thesis
    proof (cases "\<exists>n' \<in> set (positiveCounts xs). m < n'")
      case T3: True
      then obtain a where a: "a \<in> set (positiveCounts xs)" "m < a" by blast
      have mx: "Max (set (positiveCounts (x # xs))) = Max (set (positiveCounts xs))"
      proof (cases "positiveCounts [x]")
        case Nil
        then show ?thesis by (simp add: pcs)
      next
        case (Cons b bs)
        then have b: "positiveCounts [x] = [b]"
          by (cases v) (auto simp: x positiveCounts_Cons positiveCounts_Nil split: if_splits)
        with small have "b \<le> m" by simp
        with a have "b < a" by simp
        with a(1) have "Max (set (b # positiveCounts xs)) = Max (set (positiveCounts xs))"
          by (rule Max_absorb_small)
        then show ?thesis by (simp add: pcs b)
      qed
      have big: "m < Max (set (positiveCounts xs))"
        using a by (rule Max_above)
      have "v \<noteq> Num (Max (set (positiveCounts xs)))"
      proof
        assume "v = Num (Max (set (positiveCounts xs)))"
        with big have "gt v (Num m)" by simp
        with False show False by simp
      qed
      with mx have "atMax (x # xs) = atMax xs"
        unfolding x by (rule atMax_skip)
      with step exiff T3 Cons.IH [OF Cons.prems, of key] show ?thesis
        by simp
    next
      case F3: False
      with step exiff Cons.IH [OF Cons.prems, of key] show ?thesis
        by simp
    qed
  qed
qed

lemma scanMax_firstAtMax: "snd (scanMax xs (Num 0, None)) = firstAtMax xs"
proof (cases "positiveCounts xs = []")
  case True
  then show ?thesis
    by (simp add: scanMax_char firstAtMax_def)
next
  case False
  then obtain a where a: "a \<in> set (positiveCounts xs)"
    by (cases "positiveCounts xs") auto
  then have "0 < a"
    by (auto simp: positiveCounts_def split: jsnum.splits if_splits)
  with a have "\<exists>n \<in> set (positiveCounts xs). 0 < n" by blast
  with False show ?thesis
    by (simp add: scanMax_char firstAtMax_def atMax_def)
qed

lemma getMostFrequent_firstAtMax: "getMostFrequent obj = firstAtMax (forIn obj)"
  by (simp add: getMostFrequent_def scanMax_firstAtMax)

text \<open>When no key is an array index, the enumeration is in insertion order.\<close>

lemma forIn_insertion_order:
  assumes "list_all (\<lambda>(k, n). \<not> isArrayIndex k) obj"
  shows "forIn obj = obj"
proof -
  have "filter (\<lambda>(k, n). isArrayIndex k) obj = []"
    using assms by (auto simp: filter_empty_conv list_all_iff)
  moreover have "filter (\<lambda>(k, n). \<not> isArrayIndex k) obj = obj"
    using assms by (auto simp: filter_id_conv list_all_iff)
  ultimately show ?thesis
    by (simp add: forIn_def)
qed

subsection \<open>Frame facts\<close>

text \<open>What each operation leaves alone, field by field, whether it returns or throws.\<close>

lemma stateOf_andThen:
  "stateOf (andThen r f) = (if threw r then stateOf r else stateOf (f (stateOf r)))"
  by (cases r) simp_all

lemma threw_andThen: "threw (andThen r f) = (threw r \<or> threw (f (stateOf r)))"
  by (cases r) simp_all

lemma andThen_Returned: "\<not> threw r \<Longrightarrow> andThen r f = f (stateOf r)"
  by (cases r) simp_all

lemma outcome_eq: "r = (if threw r then Threw ReferenceError (stateOf r) else Returned (stateOf r))"
proof (cases r)
  case (Threw e s)
  then show ?thesis by (cases e) simp
qed simp

lemma consoleLog_fields [simp]:
  "store (consoleLog l s) = store s"
  "session (consoleLog l s) = session s"
  "profile (consoleLog l s) = profile s"
  "previousVisits (consoleLog l s) = previousVisits s"
  "isAuthenticated (consoleLog l s) = isAuthenticated s"
  "userId (consoleLog l s) = userId s"
  "userEmail (consoleLog l s) = userEmail s"
  "sessionId (consoleLog l s) = sessionId s"
  "sessionStartTime (consoleLog l s) = sessionStartTime s"
  "firebase (page (consoleLog l s)) = firebase (page s)"
  "listeners (page (consoleLog l s)) = listeners (page s)"
  "postsContainer (page (consoleLog l s)) = postsContainer (page s)"
  "categoryCards (page (consoleLog l s)) = categoryCards (page s)"
  "filterItems (page (consoleLog l s)) = filterItems (page s)"
  "hasSearchForm (page (consoleLog l s)) = hasSearchForm (page s)"
  "console (page (consoleLog l s)) = console (page s) @ [l]"
  by (simp_all add: consoleLog_def)

lemma ready_consoleLog [simp]:
  "firestoreReady (consoleLog l s) = firestoreReady s"
  "storageReady (consoleLog l s) = storageReady s"
  "analyticsReady (consoleLog l s) = analyticsReady s"
  by (simp_all add: firestoreReady_def storageReady_def analyticsReady_def)

lemma sessionLog_fields [simp]:
  "session (sessionLog now t d a s) = session s"
  "profile (sessionLog now t d a s) = profile s"
  "previousVisits (sessionLog now t d a s) = previousVisits s"
  "isAuthenticated (sessionLog now t d a s) = isAuthenticated s"
  "userId (sessionLog now t d a s) = userId s"
  "userEmail (sessionLog now t d a s) = userEmail s"
  "sessionId (sessionLog now t d a s) = sessionId s"
  "sessionStartTime (sessionLog now t d a s) = sessionStartTime s"
  "firebase (page (sessionLog now t d a s)) = firebase (page s)"
  "listeners (page (sessionLog now t d a s)) = listeners (page s)"
  "postsContainer (page (sessionLog now t d a s)) = postsContainer (page s)"
  "categoryCards (page (sessionLog now t d a s)) = categoryCards (page s)"
  "filterItems (page (sessionLog now t d a s)) = filterItems (page s)"
  "hasSearchForm (page (sessionLog now t d a s)) = hasSearchForm (page s)"
  "online (store (sessionLog now t d a s)) = online (store s)"
  "users_by_ip (store (sessionLog now t d a s)) = users_by_ip (store s)"
  "user_events (store (sessionLog now t d a s)) = user_events (store s)"
  "user_mappings (store (sessionLog now t d a s)) = user_mappings (store s)"
  "posts (store (sessionLog now t d a s)) = posts (store s)"
  "uploads (store (sessionLog now t d a s)) = uploads (store s)"
  by (simp_all add: sessionLog_def Let_def)

lemma ready_sessionLog [simp]:
  "firestoreReady (sessionLog now t d a s) = firestoreReady s"
  "storageReady (sessionLog now t d a s) = storageReady s"
  "analyticsReady (sessionLog now t d a s) = analyticsReady s"
  by (simp_all add: firestoreReady_def storageReady_def analyticsReady_def)

lemma logEvent_fields [simp]:
  "session (stateOf (logEvent now t d s)) =
     (session s)\<lparr>interactions := interactions (session s)
        @ [\<lparr>eventType = t, details = d, timestamp = now\<rparr>]\<rparr>"
  "profile (stateOf (logEvent now t d s)) = profile s"
  "previousVisits (stateOf (logEvent now t d s)) = previousVisits s"
  "isAuthenticated (stateOf (logEvent now t d s)) = isAuthenticated s"
  "userId (stateOf (logEvent now t d s)) = userId s"
  "userEmail (stateOf (logEvent now t d s)) = userEmail s"
  "sessionId (stateOf (logEvent now t d s)) = sessionId s"
  "sessionStartTime (stateOf (logEvent now t d s)) = sessionStartTime s"
  "firebase (page (stateOf (logEvent now t d s))) = firebase (page s)"
  "listeners (page (stateOf (logEvent now t d s))) = listeners (page s)"
  "postsContainer (page (stateOf (logEvent now t d s))) = postsContainer (page s)"
  "categoryCards (page (stateOf (logEvent now t d s))) = categoryCards (page s)"
  "filterItems (page (stateOf (logEvent now t d s))) = filterItems (page s)"
  "hasSearchForm (page (stateOf (logEvent now t d s))) = hasSearchForm (page s)"
  "online (store (stateOf (logEvent now t d s))) = online (store s)"
  "users_by_ip (store (stateOf (logEvent now t d s))) = users_by_ip (store s)"
  "user_events (store (stateOf (logEvent now t d s))) = user_events (store s)"
  "user_mappings (store (stateOf (logEvent now t d s))) = user_mappings (store s)"
  "posts (store (stateOf (logEvent now t d s))) = posts (store s)"
  "uploads (store (stateOf (logEvent now t d s))) = uploads (store s)"
  by (simp_all add: logEvent_def Let_def split: option.splits)

lemma threw_logEvent [simp]:
  "threw (logEvent now t d s) = (firebase (page s) = Undeclared)"
  by (simp add: logEvent_def Let_def)

lemma ready_logEvent [simp]:
  "firestoreReady (stateOf (logEvent now t d s)) = firestoreReady s"
  "storageReady (stateOf (logEvent now t d s)) = storageReady s"
  "analyticsReady (stateOf (logEvent now t d s)) = analyticsReady s"
  by (simp_all add: firestoreReady_def storageReady_def analyticsReady_def)

lemma updatePreferencesInFirebase_fields [simp]:
  "session (stateOf (updatePreferencesInFirebase k v s)) = session s"
  "profile (stateOf (updatePreferencesInFirebase k v s)) = profile s"
  "previousVisits (stateOf (updatePreferencesInFirebase k v s)) = previousVisits s"
  "isAuthenticated (stateOf (updatePreferencesInFirebase k v s)) = isAuthenticated s"
  "userId (stateOf (updatePreferencesInFirebase k v s)) = userId s"
  "userEmail (stateOf (updatePreferencesInFirebase k v s)) = userEmail s"
  "sessionId (stateOf (updatePreferencesInFirebase k v s)) = sessionId s"
  "sessionStartTime (stateOf (updatePreferencesInFirebase k v s)) = sessionStartTime s"
  "firebase (page (stateOf (updatePreferencesInFirebase k v s))) = firebase (page s)"
  "listeners (page (stateOf (updatePreferencesInFirebase k v s))) = listeners (page s)"
  "postsContainer (page (stateOf (updatePreferencesInFirebase k v s))) = postsContainer (page s)"
  "online (store (stateOf (updatePreferencesInFirebase k v s))) = online (store s)"
  "posts (store (stateOf (updatePreferencesInFirebase k v s))) = posts (store s)"
  by (simp_all add: updatePreferencesInFirebase_def Let_def split: option.splits)

lemma threw_updatePreferencesInFirebase [simp]:
  "threw (updatePreferencesInFirebase k v s) = (firebase (page s) = Undeclared)"
  by (simp add: updatePreferencesInFirebase_def)

lemma logCasinoPreference_prefs:
  "prefs (session (stateOf (logCasinoPreference now kind v s))) = countPreference kind v (prefs (session s))"
  by (simp add: logCasinoPreference_def Let_def stateOf_andThen)

lemma threw_logCasinoPreference [simp]:
  "threw (logCasinoPreference now kind v s) = (firebase (page s) = Undeclared)"
  by (simp add: logCasinoPreference_def Let_def threw_andThen)


lemma checkReturningUser_fields [simp]:
  "pageViews (session (stateOf (checkReturningUser s))) = pageViews (session s)"
  "interactions (session (stateOf (checkReturningUser s))) = interactions (session s)"
  "searches (session (stateOf (checkReturningUser s))) = searches (session s)"
  "viewed (prefs (session (stateOf (checkReturningUser s)))) = viewed (prefs (session s))"
  "ip (profile (stateOf (checkReturningUser s))) = ip (profile s)"
  "username (profile (stateOf (checkReturningUser s))) = username (profile s)"
  "isAuthenticated (stateOf (checkReturningUser s)) = isAuthenticated s"
  "userId (stateOf (checkReturningUser s)) = userId s"
  "userEmail (stateOf (checkReturningUser s)) = userEmail s"
  "sessionId (stateOf (checkReturningUser s)) = sessionId s"
  "sessionStartTime (stateOf (checkReturningUser s)) = sessionStartTime s"
  "firebase (page (stateOf (checkReturningUser s))) = firebase (page s)"
  "listeners (page (stateOf (checkReturningUser s))) = listeners (page s)"
  "postsContainer (page (stateOf (checkReturningUser s))) = postsContainer (page s)"
  "categoryCards (page (stateOf (checkReturningUser s))) = categoryCards (page s)"
  "filterItems (page (stateOf (checkReturningUser s))) = filterItems (page s)"
  "hasSearchForm (page (stateOf (checkReturningUser s))) = hasSearchForm (page s)"
  "online (store (stateOf (checkReturningUser s))) = online (store s)"
  "posts (store (stateOf (checkReturningUser s))) = posts (store s)"
  by (simp_all add: checkReturningUser_def Let_def split: option.splits)

lemma threw_checkReturningUser [simp]:
  "threw (checkReturningUser s) = (firebase (page s) = Undeclared)"
  by (simp add: checkReturningUser_def)

lemma setupEventListeners_fields [simp]:
  "session (setupEventListeners s) = session s"
  "profile (setupEventListeners s) = profile s"
  "store (setupEventListeners s) = store s"
  "previousVisits (setupEventListeners s) = previousVisits s"
  "isAuthenticated (setupEventListeners s) = isAuthenticated s"
  "userId (setupEventListeners s) = userId s"
  "userEmail (setupEventListeners s) = userEmail s"
  "sessionId (setupEventListeners s) = sessionId s"
  "sessionStartTime (setupEventListeners s) = sessionStartTime s"
  "firebase (page (setupEventListeners s)) = firebase (page s)"
  "postsContainer (page (setupEventListeners s)) = postsContainer (page s)"
  "console (page (setupEventListeners s)) = console (page s)"
  by (simp_all add: setupEventListeners_def)

lemma logPageView_fields [simp]:
  "pageViews (session (stateOf (logPageView now s))) = addOne (pageViews (session s))"
  "searches (session (stateOf (logPageView now s))) = searches (session s)"
  "prefs (session (stateOf (logPageView now s))) = prefs (session s)"
  "profile (stateOf (logPageView now s)) = profile s"
  "previousVisits (stateOf (logPageView now s)) = previousVisits s"
  "isAuthenticated (stateOf (logPageView now s)) = isAuthenticated s"
  "userId (stateOf (logPageView now s)) = userId s"
  "userEmail (stateOf (logPageView now s)) = userEmail s"
  "firebase (page (stateOf (logPageView now s))) = firebase (page s)"
  "listeners (page (stateOf (logPageView now s))) = listeners (page s)"
  "postsContainer (page (stateOf (logPageView now s))) = postsContainer (page s)"
  "online (store (stateOf (logPageView now s))) = online (store s)"
  "users_by_ip (store (stateOf (logPageView now s))) = users_by_ip (store s)"
  "posts (store (stateOf (logPageView now s))) = posts (store s)"
  by (simp_all add: logPageView_def Let_def)

lemma threw_logPageView [simp]:
  "threw (logPageView now s) = (firebase (page s) = Undeclared)"
  by (simp add: logPageView_def Let_def)

text \<open>
  \<open>initialize\<close> by the state of the global: with \<open>firebase\<close> undeclared the lookup is
  rejected at its guard and the \<open>catch\<close> ends the protocol; otherwise no step throws.
\<close>

lemma initialize_split:
  "stateOf (initialize now r s) =
     (case r of
        FetchFailed \<Rightarrow> consoleLog (Failure ''Failed to initialize analytics:'') s
      | Resolved a geo \<Rightarrow>
          if firebase (page s) = Undeclared
          then consoleLog (Failure ''Failed to initialize analytics:'')
                 (s\<lparr>profile := (profile s)\<lparr>ip := a, location := geo\<rparr>\<rparr>)
          else
            (let s4 = stateOf (logPageView now (setupEventListeners (stateOf (checkReturningUser
                        (s\<lparr>profile := (profile s)\<lparr>ip := a, location := geo\<rparr>\<rparr>)))))
             in consoleLog (Info ''User profile initialized:'')
                  (s4\<lparr>page := (page s4)
                        \<lparr>listeners := listeners (page s4) @ [OnAuthStateChanged]\<rparr>\<rparr>)))"
proof (cases r)
  case FetchFailed
  then show ?thesis by (simp add: initialize_def)
next
  case (Resolved a geo)
  let ?s1 = "s\<lparr>profile := (profile s)\<lparr>ip := a, location := geo\<rparr>\<rparr>"
  show ?thesis
  proof (cases "firebase (page s) = Undeclared")
    case True
    then have "checkReturningUser ?s1 = Threw ReferenceError ?s1"
      by (simp add: checkReturningUser_def)
    then show ?thesis
      using True by (simp add: Resolved initialize_def Let_def)
  next
    case False
    obtain s2 where r2: "checkReturningUser ?s1 = Returned s2"
      using False by (cases "checkReturningUser ?s1") (simp_all add: checkReturningUser_def)
    have "\<not> threw (logPageView now (setupEventListeners s2))"
      using False arg_cong [OF r2, of "\<lambda>r. firebase (page (stateOf r))"] by simp
    then obtain s4 where r4: "logPageView now (setupEventListeners s2) = Returned s4"
      by (cases "logPageView now (setupEventListeners s2)") simp_all
    have l4: "listeners (page s4) = listeners (page (setupEventListeners s2))"
      using arg_cong [OF r4, of "\<lambda>r. listeners (page (stateOf r))"] by simp
    show ?thesis
      using False by (simp add: Resolved initialize_def Let_def r2 r4 l4)
  qed
qed

lemma initialize_fields [simp]:
  "username (profile (stateOf (initialize now r s))) = username (profile s)"
  "isAuthenticated (stateOf (initialize now r s)) = isAuthenticated s"
  "userId (stateOf (initialize now r s)) = userId s"
  "userEmail (stateOf (initialize now r s)) = userEmail s"
  "firebase (page (stateOf (initialize now r s))) = firebase (page s)"
  "postsContainer (page (stateOf (initialize now r s))) = postsContainer (page s)"
  "online (store (stateOf (initialize now r s))) = online (store s)"
  "posts (store (stateOf (initialize now r s))) = posts (store s)"
  by (simp_all add: initialize_split Let_def split: fetchResult.splits)

lemma threw_initialize [simp]: "\<not> threw (initialize now r s)"
  by (simp add: initialize_def Let_def split: fetchResult.splits outcome.splits)

lemma initialize_pageViews:
  "pageViews (session (stateOf (initialize now r s))) =
     (case r of
        FetchFailed \<Rightarrow> pageViews (session s)
      | Resolved a geo \<Rightarrow>
          if firebase (page s) = Undeclared then pageViews (session s)
          else addOne (pageViews (session s)))"
  by (simp add: initialize_split Let_def split: fetchResult.splits)

lemma linkUserWithIP_fields [simp]:
  "session (stateOf (linkUserWithIP s)) = session s"
  "profile (stateOf (linkUserWithIP s)) = profile s"
  "previousVisits (stateOf (linkUserWithIP s)) = previousVisits s"
  "isAuthenticated (stateOf (linkUserWithIP s)) = isAuthenticated s"
  "userId (stateOf (linkUserWithIP s)) = userId s"
  "userEmail (stateOf (linkUserWithIP s)) = userEmail s"
  "firebase (page (stateOf (linkUserWithIP s))) = firebase (page s)"
  "listeners (page (stateOf (linkUserWithIP s))) = listeners (page s)"
  "postsContainer (page (stateOf (linkUserWithIP s))) = postsContainer (page s)"
  "online (store (stateOf (linkUserWithIP s))) = online (store s)"
  "posts (store (stateOf (linkUserWithIP s))) = posts (store s)"
  by (simp_all add: linkUserWithIP_def Let_def split: option.splits)

lemma threw_linkUserWithIP [simp]:
  "threw (linkUserWithIP s) = (firebase (page s) = Undeclared)"
  by (simp add: linkUserWithIP_def)

lemma handleAuthChange_fields [simp]:
  "pageViews (session (stateOf (handleAuthChange now ev s))) = pageViews (session s)"
  "prefs (session (stateOf (handleAuthChange now ev s))) = prefs (session s)"
  "profile (stateOf (handleAuthChange now ev s)) = profile s"
  "previousVisits (stateOf (handleAuthChange now ev s)) = previousVisits s"
  "firebase (page (stateOf (handleAuthChange now ev s))) = firebase (page s)"
  "postsContainer (page (stateOf (handleAuthChange now ev s))) = postsContainer (page s)"
  "online (store (stateOf (handleAuthChange now ev s))) = online (store s)"
  "posts (store (stateOf (handleAuthChange now ev s))) = posts (store s)"
  by (simp_all add: handleAuthChange_def Let_def stateOf_andThen split: authEvent.splits)

lemma handleAuthChange_identity:
  "isAuthenticated (stateOf (handleAuthChange now ev s)) = (ev \<noteq> SignedOut)"
  "userId (stateOf (handleAuthChange now ev s)) = (case ev of SignedOut \<Rightarrow> None | SignedIn uid email \<Rightarrow> Some uid)"
  by (simp_all add: handleAuthChange_def Let_def stateOf_andThen split: authEvent.splits)

lemma logSearch_fields [simp]:
  "pageViews (session (stateOf (logSearch now q fs s))) = pageViews (session s)"
  "prefs (session (stateOf (logSearch now q fs s))) = prefs (session s)"
  "profile (stateOf (logSearch now q fs s)) = profile s"
  "previousVisits (stateOf (logSearch now q fs s)) = previousVisits s"
  "isAuthenticated (stateOf (logSearch now q fs s)) = isAuthenticated s"
  "userId (stateOf (logSearch now q fs s)) = userId s"
  "firebase (page (stateOf (logSearch now q fs s))) = firebase (page s)"
  "postsContainer (page (stateOf (logSearch now q fs s))) = postsContainer (page s)"
  "online (store (stateOf (logSearch now q fs s))) = online (store s)"
  "users_by_ip (store (stateOf (logSearch now q fs s))) = users_by_ip (store s)"
  "posts (store (stateOf (logSearch now q fs s))) = posts (store s)"
  by (simp_all add: logSearch_def)

lemma logCasinoPreference_fields [simp]:
  "pageViews (session (stateOf (logCasinoPreference now kind v s))) = pageViews (session s)"
  "searches (session (stateOf (logCasinoPreference now kind v s))) = searches (session s)"
  "profile (stateOf (logCasinoPreference now kind v s)) = profile s"
  "previousVisits (stateOf (logCasinoPreference now kind v s)) = previousVisits s"
  "isAuthenticated (stateOf (logCasinoPreference now kind v s)) = isAuthenticated s"
  "userId (stateOf (logCasinoPreference now kind v s)) = userId s"
  "userEmail (stateOf (logCasinoPreference now kind v s)) = userEmail s"
  "firebase (page (stateOf (logCasinoPreference now kind v s))) = firebase (page s)"
  "postsContainer (page (stateOf (logCasinoPreference now kind v s))) = postsContainer (page s)"
  "online (store (stateOf (logCasinoPreference now kind v s))) = online (store s)"
  "posts (store (stateOf (logCasinoPreference now kind v s))) = posts (store s)"
  by (simp_all add: logCasinoPreference_def Let_def stateOf_andThen)

lemma loadPosts_fields [simp]:
  "session (stateOf (loadPosts s)) = session s"
  "profile (stateOf (loadPosts s)) = profile s"
  "store (stateOf (loadPosts s)) = store s"
  "previousVisits (stateOf (loadPosts s)) = previousVisits s"
  "isAuthenticated (stateOf (loadPosts s)) = isAuthenticated s"
  "userId (stateOf (loadPosts s)) = userId s"
  "userEmail (stateOf (loadPosts s)) = userEmail s"
  "firebase (page (stateOf (loadPosts s))) = firebase (page s)"
  "listeners (page (stateOf (loadPosts s))) = listeners (page s)"
  by (simp_all add: loadPosts_def Let_def split: option.splits)

lemma createPost_fields [simp]:
  "session (stateOf (createPost now txt f s)) = session s"
  "profile (stateOf (createPost now txt f s)) = profile s"
  "previousVisits (stateOf (createPost now txt f s)) = previousVisits s"
  "isAuthenticated (stateOf (createPost now txt f s)) = isAuthenticated s"
  "userId (stateOf (createPost now txt f s)) = userId s"
  "userEmail (stateOf (createPost now txt f s)) = userEmail s"
  "firebase (page (stateOf (createPost now txt f s))) = firebase (page s)"
  "listeners (page (stateOf (createPost now txt f s))) = listeners (page s)"
  "online (store (stateOf (createPost now txt f s))) = online (store s)"
  "users_by_ip (store (stateOf (createPost now txt f s))) = users_by_ip (store s)"
  by (simp_all add: createPost_def Let_def)

subsection \<open>Event delivery\<close>

lemma fold_invariant:
  assumes "\<And>x s. P s \<Longrightarrow> P (f x s)" and "P s"
  shows "P (fold f xs s)"
  using assms(2)
proof (induction xs arbitrary: s)
  case Nil
  then show ?case by simp
next
  case (Cons x xs)
  from Cons.prems have "P (f x s)" by (rule assms(1))
  then show ?case using Cons.IH by simp
qed

lemma onCardClick_fields [simp]:
  "pageViews (session (stateOf (onCardClick now i s))) = pageViews (session s)"
  "profile (stateOf (onCardClick now i s)) = profile s"
  "isAuthenticated (stateOf (onCardClick now i s)) = isAuthenticated s"
  "userId (stateOf (onCardClick now i s)) = userId s"
  "firebase (page (stateOf (onCardClick now i s))) = firebase (page s)"
  by (simp_all add: onCardClick_def)

lemma onFilterClick_fields [simp]:
  "pageViews (session (stateOf (onFilterClick now i s))) = pageViews (session s)"
  "profile (stateOf (onFilterClick now i s)) = profile s"
  "isAuthenticated (stateOf (onFilterClick now i s)) = isAuthenticated s"
  "userId (stateOf (onFilterClick now i s)) = userId s"
  "firebase (page (stateOf (onFilterClick now i s))) = firebase (page s)"
  by (simp_all add: onFilterClick_def Let_def stateOf_andThen split: option.splits)

lemma onSearchSubmit_fields [simp]:
  "pageViews (session (stateOf (onSearchSubmit now s))) = pageViews (session s)"
  "profile (stateOf (onSearchSubmit now s)) = profile s"
  "isAuthenticated (stateOf (onSearchSubmit now s)) = isAuthenticated s"
  "userId (stateOf (onSearchSubmit now s)) = userId s"
  "firebase (page (stateOf (onSearchSubmit now s))) = firebase (page s)"
  by (simp_all add: onSearchSubmit_def split: option.splits)

lemma deliver_fields [simp]:
  "pageViews (session (stateOf (deliver now ev l s))) = pageViews (session s)"
  "profile (stateOf (deliver now ev l s)) = profile s"
  "firebase (page (stateOf (deliver now ev l s))) = firebase (page s)"
  by (cases ev; cases l; simp)+

lemma report_fields [simp]:
  "session (report r) = session (stateOf r)"
  "profile (report r) = profile (stateOf r)"
  "isAuthenticated (report r) = isAuthenticated (stateOf r)"
  "userId (report r) = userId (stateOf r)"
  "firebase (page (report r)) = firebase (page (stateOf r))"
  by (cases r; simp add: report_def)+

lemma dispatch_pageViews [simp]:
  "pageViews (session (dispatch now ev s)) = pageViews (session s)"
  unfolding dispatch_def
  by (rule fold_invariant [where P = "\<lambda>s'. pageViews (session s') = pageViews (session s)"])
    simp_all

lemma dispatch_profile [simp]: "profile (dispatch now ev s) = profile s"
  unfolding dispatch_def
  by (rule fold_invariant [where P = "\<lambda>s'. profile s' = profile s"]) simp_all

lemma dispatch_firebase [simp]: "firebase (page (dispatch now ev s)) = firebase (page s)"
  unfolding dispatch_def
  by (rule fold_invariant [where P = "\<lambda>s'. firebase (page s') = firebase (page s)"]) simp_all

lemma deliver_identity:
  "isAuthenticated s \<or> userId s = None \<Longrightarrow>
   isAuthenticated (stateOf (deliver now ev l s)) \<or> userId (stateOf (deliver now ev l s)) = None"
proof (cases ev)
  case (AuthStateChanged a)
  assume "isAuthenticated s \<or> userId s = None"
  then show ?thesis
    by (cases l; cases a) (simp_all add: AuthStateChanged handleAuthChange_identity)
qed (cases l; simp)+

lemma dispatch_identity:
  assumes "isAuthenticated s \<or> userId s = None"
  shows "isAuthenticated (dispatch now ev s) \<or> userId (dispatch now ev s) = None"
  unfolding dispatch_def
  by (rule fold_invariant [where P = "\<lambda>s'. isAuthenticated s' \<or> userId s' = None"])
    (simp_all add: deliver_identity assms)

subsection \<open>Sessions\<close>

lemma run_Nil [simp]: "run [] s = s"
  by (simp add: run_def)

lemma run_Cons [simp]: "run (c # cs) s = run cs (stateOf (exec c s))"
  by (simp add: run_def)

lemma run_append [simp]: "run (cs @ ds) s = run ds (run cs s)"
  by (simp add: run_def)

text \<open>No call declares or removes the global.\<close>

lemma exec_firebase [simp]: "firebase (page (stateOf (exec c s))) = firebase (page s)"
proof (cases c)
  case (Pair now k)
  show ?thesis
    by (cases k) (simp_all add: Pair)
qed

lemma run_firebase [simp]: "firebase (page (run calls s)) = firebase (page s)"
  by (induction calls arbitrary: s) simp_all

lemma firestoreReady_declared: "firestoreReady s \<Longrightarrow> firebase (page s) \<noteq> Undeclared"
  by (auto simp add: firestoreReady_def)

subsection \<open>The derived category field\<close>

text \<open>Concrete runs of the counting idiom, the enumeration and the scan.\<close>

lemma newTracker_prefs:
  "prefs (session (newTracker now sid st pg))
     = \<lparr>viewed = [], clicked = [], amenitiesSelected = [], typePreference = None\<rparr>"
  by (simp add: newTracker_def)

lemma bump_numeric_labels:
  "bump [] ''2'' = [(''2'', Num 1)]"
  "bump [(''2'', Num 1)] ''1'' = [(''2'', Num 1), (''1'', Num 1)]"
  by (simp_all add: bump_def getProp_def setProp_def objectPrototypeMembers_def addOne_def)

lemma forIn_numeric_labels:
  "forIn [(''2'', Num 1)] = [(''2'', Num 1)]"
  "forIn [(''2'', Num 1), (''1'', Num 1)] = [(''1'', Num 1), (''2'', Num 1)]"
  by (simp_all add: forIn_def isArrayIndex_def isDigit_def decimal_def)

lemma firstAtMax_numeric_labels:
  "firstAtMax [(''2'', Num 1)] = Some ''2''"
  "firstAtMax [(''1'', Num 1), (''2'', Num 1)] = Some ''1''"
  "firstAtMax [(''2'', Num 1), (''1'', Num 1)] = Some ''2''"
  by (simp_all add: firstAtMax_def positiveCounts_def)

lemma bump_word_labels:
  "bump [] ''tribal'' = [(''tribal'', Num 1)]"
  "bump [(''tribal'', Num 1)] ''resort'' = [(''tribal'', Num 1), (''resort'', Num 1)]"
  "bump [(''tribal'', Num 1), (''resort'', Num 1)] ''resort''
     = [(''tribal'', Num 1), (''resort'', Num 2)]"
  by (simp_all add: bump_def getProp_def setProp_def objectPrototypeMembers_def addOne_def)

lemma forIn_word_labels:
  "forIn [(''tribal'', Num 1), (''resort'', Num 2)] = [(''tribal'', Num 1), (''resort'', Num 2)]"
  by (simp add: forIn_def isArrayIndex_def isDigit_def decimal_def)

lemma firstAtMax_word_labels:
  "firstAtMax [(''tribal'', Num 1), (''resort'', Num 2)] = Some ''resort''"
  by (simp add: firstAtMax_def positiveCounts_def)

text \<open>
  Claim C1, as stated, reads the scan as one over the map in insertion order. It fails
  for labels that are array indices: after the categories \<open>"2"\<close> and then \<open>"1"\<close> the map
  holds both with count 1, created in that order; \<open>for ... in\<close> visits \<open>"1"\<close> first, so the
  derived field is \<open>"1"\<close>, while the first label at the maximum in insertion order is
  \<open>"2"\<close>.
\<close>

theorem category_insertion_order_counterexample:
  "viewed (prefs (session (run [(1, LogCasinoPreference ''category'' (Some ''2'')),
                                (2, LogCasinoPreference ''category'' (Some ''1''))] freshTracker)))
     = [(''2'', Num 1), (''1'', Num 1)]
   \<and> typePreference (prefs (session (run [(1, LogCasinoPreference ''category'' (Some ''2'')),
                                (2, LogCasinoPreference ''category'' (Some ''1''))] freshTracker)))
     = Some ''1''
   \<and> firstAtMax (viewed (prefs (session (run [(1, LogCasinoPreference ''category'' (Some ''2'')),
                                (2, LogCasinoPreference ''category'' (Some ''1''))] freshTracker))))
     = Some ''2''"
  by (simp add: logCasinoPreference_prefs freshTracker_def newTracker_prefs countPreference_def
      Let_def bump_numeric_labels forIn_numeric_labels firstAtMax_numeric_labels
      getMostFrequent_firstAtMax)

text \<open>
  Claim C1, amended. After every \<open>logCasinoPreference('category', v)\<close>, from any state,
  the derived field \<open>typePreference\<close> is the label with the maximum count in the viewed
  map, ties going to the first label at the maximum in the order in which
  \<open>for ... in\<close> enumerates the map: array-index labels in ascending numeric order first,
  then the other labels in insertion order. (It is \<open>null\<close> when no label has a positive
  count.) When no label in the map is an array index, that order is the insertion
  order. The field is set before the event is logged, so this holds also when the call
  ends in an exception.
\<close>

theorem category_typePreference:
  "typePreference (prefs (session (stateOf (logCasinoPreference now ''category'' v s))))
   = firstAtMax (forIn (viewed (prefs (session (stateOf (logCasinoPreference now ''category'' v s))))))
   \<and> (list_all (\<lambda>(k, n). \<not> isArrayIndex k)
         (viewed (prefs (session (stateOf (logCasinoPreference now ''category'' v s))))) \<longrightarrow>
       typePreference (prefs (session (stateOf (logCasinoPreference now ''category'' v s))))
       = firstAtMax (viewed (prefs (session (stateOf (logCasinoPreference now ''category'' v s))))))"
  by (simp add: logCasinoPreference_prefs countPreference_def Let_def getMostFrequent_firstAtMax
      forIn_insertion_order)

theorem category_typePreference_witness:
  "viewed (prefs (session (stateOf (logCasinoPreference 3 ''category'' (Some ''resort'')
      (run [(1, LogCasinoPreference ''category'' (Some ''tribal'')),
            (2, LogCasinoPreference ''category'' (Some ''resort''))] freshTracker)))))
     = [(''tribal'', Num 1), (''resort'', Num 2)]
   \<and> list_all (\<lambda>(k, n). \<not> isArrayIndex k) [(''tribal'', Num 1), (''resort'', Num 2)]
   \<and> typePreference (prefs (session (stateOf (logCasinoPreference 3 ''category'' (Some ''resort'')
      (run [(1, LogCasinoPreference ''category'' (Some ''tribal'')),
            (2, LogCasinoPreference ''category'' (Some ''resort''))] freshTracker)))))
     = Some ''resort''"
proof -
  have v: "viewed (prefs (session (stateOf (logCasinoPreference 3 ''category'' (Some ''resort'')
      (run [(1, LogCasinoPreference ''category'' (Some ''tribal'')),
            (2, LogCasinoPreference ''category'' (Some ''resort''))] freshTracker)))))
     = [(''tribal'', Num 1), (''resort'', Num 2)]"
    by (simp add: logCasinoPreference_prefs freshTracker_def newTracker_prefs
        countPreference_def Let_def bump_word_labels)
  have plain: "list_all (\<lambda>(k, n). \<not> isArrayIndex k) [(''tribal'', Num 1), (''resort'', Num 2)]"
    by (simp add: isArrayIndex_def isDigit_def)
  from category_typePreference [of 3 "Some ''resort''"
      "run [(1, LogCasinoPreference ''category'' (Some ''tribal'')),
            (2, LogCasinoPreference ''category'' (Some ''resort''))] freshTracker"]
    v plain
  show ?thesis
    by (simp add: firstAtMax_word_labels forIn_word_labels)
qed

subsection \<open>Initialization\<close>

text \<open>
  Claim C2, as stated, says that after a failed identity request the tracker still
  attaches its listeners, logs the page view and subscribes to the authentication
  signal. On the sample page a failed request leaves no listener, no page view and no
  interaction.
\<close>

theorem initialize_failure_counterexample:
  "listeners (page (stateOf (initialize 1 FetchFailed freshTracker))) = []
   \<and> pageViews (session (stateOf (initialize 1 FetchFailed freshTracker))) = 0
   \<and> interactions (session (stateOf (initialize 1 FetchFailed freshTracker))) = []"
  by (simp add: initialize_split freshTracker_def newTracker_def plainPage_def)

text \<open>
  On a page where \<open>firebase\<close> is not declared the protocol ends in the same \<open>catch\<close> even
  though the request succeeded: the guard of \<open>checkReturningUser\<close> throws, and no
  listener is attached.
\<close>

lemma initialize_without_sdk:
  assumes "firebase (page s) = Undeclared"
  shows "listeners (page (stateOf (initialize now (Resolved a geo) s))) = listeners (page s)"
    and "session (stateOf (initialize now (Resolved a geo) s)) = session s"
    and "console (page (stateOf (initialize now (Resolved a geo) s)))
           = console (page s) @ [Failure ''Failed to initialize analytics:'']"
  using assms by (simp_all add: initialize_split)

text \<open>
  Claim C2, amended. A run of the initialization protocol never throws. When the
  identity request fails, the failure is caught and logged and none of the remaining
  steps runs: listeners, session data, profile and store are as before. When the
  request succeeds on a page where the global \<open>firebase\<close> is declared, every step runs,
  whatever the returning-user lookup finds: the listeners for the cards, the filter
  items and the search form are attached, followed by the subscription to the
  authentication signal, and one page view is logged.
\<close>

theorem initialize_steps:
  "\<not> threw (initialize now r s)
   \<and> listeners (page (stateOf (initialize now FetchFailed s))) = listeners (page s)
   \<and> session (stateOf (initialize now FetchFailed s)) = session s
   \<and> profile (stateOf (initialize now FetchFailed s)) = profile s
   \<and> store (stateOf (initialize now FetchFailed s)) = store s
   \<and> console (page (stateOf (initialize now FetchFailed s)))
       = console (page s) @ [Failure ''Failed to initialize analytics:'']
   \<and> (firebase (page s) \<noteq> Undeclared \<longrightarrow>
       listeners (page (stateOf (initialize now (Resolved a geo) s)))
         = listeners (page s)
           @ map OnCardClick [0 ..< length (categoryCards (page s))]
           @ map OnFilterClick [0 ..< length (filterItems (page s))]
           @ (if hasSearchForm (page s) then [OnSearchSubmit] else [])
           @ [OnAuthStateChanged]
       \<and> pageViews (session (stateOf (initialize now (Resolved a geo) s)))
           = addOne (pageViews (session s))
       \<and> eventType (last (interactions (session (stateOf (initialize now (Resolved a geo) s)))))
           = ''page_view'')"
proof -
  have failed: "stateOf (initialize now FetchFailed s)
                  = consoleLog (Failure ''Failed to initialize analytics:'') s"
    by (simp add: initialize_split)
  let ?s2 = "stateOf (checkReturningUser (s\<lparr>profile := (profile s)\<lparr>ip := a, location := geo\<rparr>\<rparr>))"
  let ?s4 = "stateOf (logPageView now (setupEventListeners ?s2))"
  have resolved: "stateOf (initialize now (Resolved a geo) s)
                    = consoleLog (Info ''User profile initialized:'')
                        (?s4\<lparr>page := (page ?s4)
                              \<lparr>listeners := listeners (page ?s4) @ [OnAuthStateChanged]\<rparr>\<rparr>)"
    if "firebase (page s) \<noteq> Undeclared"
    using that by (simp add: initialize_split Let_def)
  have attached: "listeners (page ?s4)
       = listeners (page s)
         @ map OnCardClick [0 ..< length (categoryCards (page s))]
         @ map OnFilterClick [0 ..< length (filterItems (page s))]
         @ (if hasSearchForm (page s) then [OnSearchSubmit] else [])"
    by (simp add: setupEventListeners_def)
  have viewed: "pageViews (session ?s4) = addOne (pageViews (session s))"
    by simp
  have logged: "eventType (last (interactions (session ?s4))) = ''page_view''"
    by (simp add: logPageView_def Let_def)
  have steps: "listeners (page (stateOf (initialize now (Resolved a geo) s)))
         = listeners (page s)
           @ map OnCardClick [0 ..< length (categoryCards (page s))]
           @ map OnFilterClick [0 ..< length (filterItems (page s))]
           @ (if hasSearchForm (page s) then [OnSearchSubmit] else [])
           @ [OnAuthStateChanged]
       \<and> pageViews (session (stateOf (initialize now (Resolved a geo) s)))
           = addOne (pageViews (session s))
       \<and> eventType (last (interactions (session (stateOf (initialize now (Resolved a geo) s)))))
           = ''page_view''"
    if declared: "firebase (page s) \<noteq> Undeclared"
    unfolding resolved [OF declared] using attached viewed logged by simp
  show ?thesis
    unfolding failed using steps by simp
qed

theorem initialize_steps_witness:
  "firebase (page freshTracker) \<noteq> Undeclared
   \<and> \<not> threw (initialize 1 FetchFailed freshTracker)
   \<and> listeners (page (stateOf (initialize 1 FetchFailed freshTracker))) = []
   \<and> pageViews (session (stateOf (initialize 1 FetchFailed freshTracker))) = 0
   \<and> console (page (stateOf (initialize 1 FetchFailed freshTracker)))
       = [Info ''Initializing user analytics...'', Failure ''Failed to initialize analytics:'']
   \<and> listeners (page (stateOf (initialize 1 (Resolved (Some ''203.0.113.7'') []) freshTracker)))
       = [OnCardClick 0, OnCardClick 1, OnFilterClick 0, OnSearchSubmit, OnAuthStateChanged]
   \<and> pageViews (session (stateOf (initialize 1 (Resolved (Some ''203.0.113.7'') []) freshTracker)))
       = 1"
  using initialize_steps [of 1 FetchFailed freshTracker "Some ''203.0.113.7''" "[]"]
  by (simp add: freshTracker_def newTracker_def plainPage_def consoleLog_def upt_rec addOne_def)

subsection \<open>Page views\<close>

lemma callsLogPageView_global:
  "firebase pg = firebase pg' \<Longrightarrow> callsLogPageView pg c = callsLogPageView pg' c"
  by (induction pg c rule: callsLogPageView.induct) simp_all

lemma exec_pageViews:
  "pageViews (session (stateOf (exec c s))) =
     (if callsLogPageView (page s) (snd c) then addOne (pageViews (session s))
      else pageViews (session s))"
proof (cases c)
  case (Pair now k)
  show ?thesis
  proof (cases k)
    case (Initialize r)
    then show ?thesis
      by (cases r) (simp_all add: Pair initialize_pageViews)
  qed (simp_all add: Pair)
qed

text \<open>A counter that started at 0, after \<open>n\<close> increments.\<close>

lemma addOne_counted:
  "addOne (min (int n) (2 ^ 53)) = min (int (Suc n)) (2 ^ 53)"
  by (simp add: addOne_def min_def)

lemma run_pageViews:
  assumes "firebase (page s) = firebase pg"
    and "pageViews (session s) = min (int n) (2 ^ 53)"
  shows "pageViews (session (run calls s)) =
     min (int (n + length (filter (\<lambda>c. callsLogPageView pg (snd c)) calls))) (2 ^ 53)"
  using assms
proof (induction calls arbitrary: s n)
  case Nil
  then show ?case by simp
next
  case (Cons c calls)
  let ?s' = "stateOf (exec c s)"
  have same: "firebase (page ?s') = firebase pg"
    using Cons.prems(1) by simp
  have here: "callsLogPageView (page s) (snd c) = callsLogPageView pg (snd c)"
    using Cons.prems(1) by (rule callsLogPageView_global)
  show ?case
  proof (cases "callsLogPageView pg (snd c)")
    case True
    from exec_pageViews [of c s] True here
    have "pageViews (session ?s') = addOne (pageViews (session s))"
      by simp
    then have "pageViews (session ?s') = min (int (Suc n)) (2 ^ 53)"
      by (simp only: Cons.prems(2) addOne_counted)
    from Cons.IH [OF same this] True show ?thesis
      by simp
  next
    case False
    from exec_pageViews [of c s] False here
    have "pageViews (session ?s') = pageViews (session s)"
      by simp
    then have "pageViews (session ?s') = min (int n) (2 ^ 53)"
      by (simp only: Cons.prems(2))
    from Cons.IH [OF same this] False show ?thesis
      by simp
  qed
qed

lemma newTracker_pageViews [simp]: "pageViews (session (newTracker now sid st pg)) = 0"
  by (simp add: newTracker_def)

lemma newTracker_firebase [simp]: "firebase (page (newTracker now sid st pg)) = firebase pg"
  by (simp add: newTracker_def)

text \<open>
  Claim C3, as stated, says the count is at least 1 once initialization has completed.
  An initialization whose identity request failed has completed, and the count is 0.
\<close>

theorem pageViews_after_failed_initialization_counterexample:
  "behavior_pageViews (getUserInsights 2 (run [(1, Initialize FetchFailed)] freshTracker)) = 0"
  by (simp add: getUserInsights_def initialize_pageViews freshTracker_def)

text \<open>
  Claim C3, amended. In every session \<open>getUserInsights().behavior.pageViews\<close> equals the
  number of times \<open>logPageView\<close> has run so far: once for each direct call and once for
  each initialization that got as far as its page-view step. The count is a number: it
  is exact up to \<open>2^53\<close>, where it stays. It is at least 1 as soon as \<open>logPageView\<close> has
  run once; in particular it is at least 1 after an initialization whose identity
  request succeeded on a page where the global \<open>firebase\<close> is declared.
\<close>

theorem pageViews_counted:
  "behavior_pageViews (getUserInsights t (run calls (newTracker now sid st pg)))
     = min (int (length (filter (\<lambda>c. callsLogPageView pg (snd c)) calls))) (2 ^ 53)
   \<and> ((\<exists>c \<in> set calls. callsLogPageView pg (snd c)) \<longrightarrow>
        1 \<le> behavior_pageViews (getUserInsights t (run calls (newTracker now sid st pg))))
   \<and> (firebase pg \<noteq> Undeclared \<and> (t1, Initialize (Resolved a geo)) \<in> set calls \<longrightarrow>
        1 \<le> behavior_pageViews (getUserInsights t (run calls (newTracker now sid st pg))))"
proof -
  have "pageViews (session (run calls (newTracker now sid st pg)))
     = min (int (0 + length (filter (\<lambda>c. callsLogPageView pg (snd c)) calls))) (2 ^ 53)"
    by (intro run_pageViews) simp_all
  then have eq: "behavior_pageViews (getUserInsights t (run calls (newTracker now sid st pg)))
     = min (int (length (filter (\<lambda>c. callsLogPageView pg (snd c)) calls))) (2 ^ 53)"
    by (simp add: getUserInsights_def)
  have once: "1 \<le> min (int (length (filter (\<lambda>c. callsLogPageView pg (snd c)) calls))) (2 ^ 53)"
    if "\<exists>c \<in> set calls. callsLogPageView pg (snd c)"
  proof -
    from that have "filter (\<lambda>c. callsLogPageView pg (snd c)) calls \<noteq> []"
      by (simp add: filter_empty_conv)
    then obtain x xs where "filter (\<lambda>c. callsLogPageView pg (snd c)) calls = x # xs"
      by (cases "filter (\<lambda>c. callsLogPageView pg (snd c)) calls") auto
    then show ?thesis
      by simp
  qed
  have "\<exists>c \<in> set calls. callsLogPageView pg (snd c)"
    if "firebase pg \<noteq> Undeclared" and "(t1, Initialize (Resolved a geo)) \<in> set calls"
    using that by (intro bexI [of _ "(t1, Initialize (Resolved a geo))"]) simp_all
  with eq once show ?thesis
    by auto
qed

theorem pageViews_counted_witness:
  "firebase plainPage \<noteq> Undeclared
   \<and> behavior_pageViews (getUserInsights 9
      (run [(1, Initialize (Resolved (Some ''203.0.113.7'') [])), (5, LogPageView)]
         freshTracker)) = 2
   \<and> 1 \<le> behavior_pageViews (getUserInsights 9
      (run [(1, Initialize (Resolved (Some ''203.0.113.7'') [])), (5, LogPageView)]
         freshTracker))"
proof -
  have declared: "firebase plainPage \<noteq> Undeclared"
    by (simp add: plainPage_def)
  from pageViews_counted
          [of 9 "[(1, Initialize (Resolved (Some ''203.0.113.7'') [])), (5, LogPageView)]"
              0 "''k3x9''" emptyStore plainPage 1 "Some ''203.0.113.7''" "[]"] declared
  show ?thesis
    by (simp add: freshTracker_def)
qed

subsection \<open>Scalar preferences\<close>

lemma storeField_ofString [simp]: "storeField old (ofString v) = ofString v"
  by (cases v) (simp_all add: storeField_def)

lemma updateObj_scalar:
  "kind = ''rating'' \<or> kind = ''distance'' \<Longrightarrow>
   updateObj kind v s = [(scalarPath kind, ofString v)]"
  by (auto simp add: updateObj_def scalarPath_def)

lemma countPreference_scalar:
  "kind = ''rating'' \<or> kind = ''distance'' \<Longrightarrow> countPreference kind v p = p"
  by (auto simp add: countPreference_def)

lemma scalar_step:
  assumes "ip (profile s) = Some a" "a \<noteq> []" "firestoreReady s" "online (store s)"
    and "users_by_ip (store s) a = Some d"
    and "kind = ''rating'' \<or> kind = ''distance''"
  shows "users_by_ip (store (stateOf (logCasinoPreference now kind v s))) a
           = Some (assign d (scalarPath kind) (ofString v))"
    and "prefs (session (stateOf (logCasinoPreference now kind v s))) = prefs (session s)"
proof -
  let ?s1 = "s\<lparr>session := (session s)\<lparr>prefs := countPreference kind v (prefs (session s))\<rparr>\<rparr>"
  let ?s2 = "stateOf (logEvent now ''casino_preference''
                 [(''preferenceType'', Str kind),
                  (''value'', ofString v),
                  (''count'', orElse (getProp (viewed (prefs (session ?s1))) (keyOf v))
                                     (Number (Num 1)))] ?s1)"
  have declared: "firebase (page s) \<noteq> Undeclared"
    using assms(3) by (rule firestoreReady_declared)
  have ready: "firestoreReady ?s2"
    using assms(3) by (simp add: firestoreReady_def)
  have pre: "ip (profile ?s2) = Some a" "online (store ?s2)" "users_by_ip (store ?s2) a = Some d"
    "firebase (page ?s2) \<noteq> Undeclared"
    using assms declared by simp_all
  have "users_by_ip (store (stateOf (updatePreferencesInFirebase kind v ?s2))) a
          = Some (assign d (scalarPath kind) (ofString v))"
    using ready pre assms(2)
    by (simp add: updatePreferencesInFirebase_def updateObj_scalar [OF assms(6)] map_of_assign)
  then show "users_by_ip (store (stateOf (logCasinoPreference now kind v s))) a
           = Some (assign d (scalarPath kind) (ofString v))"
    using declared by (simp add: logCasinoPreference_def Let_def stateOf_andThen)
  show "prefs (session (stateOf (logCasinoPreference now kind v s))) = prefs (session s)"
    by (simp add: logCasinoPreference_prefs countPreference_scalar [OF assms(6)])
qed

lemma writeScalars_append:
  "writeScalars d (xs @ ys) = writeScalars (writeScalars d xs) ys"
  by (induction xs arbitrary: d) auto

lemma scalar_run:
  assumes "ip (profile s) = Some a" "a \<noteq> []" "firestoreReady s" "online (store s)"
    and "users_by_ip (store s) a = Some d"
    and "\<forall>c \<in> set calls. fst (snd c) = ''rating'' \<or> fst (snd c) = ''distance''"
  shows "users_by_ip (store (run (preferenceCalls calls) s)) a = Some (writeScalars d calls)
       \<and> prefs (session (run (preferenceCalls calls) s)) = prefs (session s)"
  using assms
proof (induction calls arbitrary: s d)
  case Nil
  then show ?case by (simp add: preferenceCalls_def)
next
  case (Cons c calls)
  obtain now kind v where c: "c = (now, kind, v)" by (cases c)
  from Cons.prems(6) have kind: "kind = ''rating'' \<or> kind = ''distance''"
    and rest: "\<forall>c \<in> set calls. fst (snd c) = ''rating'' \<or> fst (snd c) = ''distance''"
    by (simp_all add: c)
  let ?s' = "stateOf (logCasinoPreference now kind v s)"
  have step: "users_by_ip (store ?s') a = Some (assign d (scalarPath kind) (ofString v))"
    "prefs (session ?s') = prefs (session s)"
    using Cons.prems(1-5) kind by (rule scalar_step)+
  have pre: "ip (profile ?s') = Some a" "firestoreReady ?s'" "online (store ?s')"
    using Cons.prems(1,3,4) by (simp_all add: firestoreReady_def)
  from Cons.IH [OF pre(1) Cons.prems(2) pre(2) pre(3) step(1) rest] step(2)
  show ?case
    by (simp add: preferenceCalls_def c)
qed

lemma lastWritten_snoc:
  "lastWritten kind (calls @ [(now, k, v)]) = (if k = kind then Some v else lastWritten kind calls)"
  by (simp add: lastWritten_def Let_def)

lemma scalarPath_inj: "scalarPath k = scalarPath k' \<Longrightarrow> k = k'"
  by (simp add: scalarPath_def)

lemma writeScalars_last:
  "map_of (writeScalars d calls) (scalarPath kind)
     = (case lastWritten kind calls of None \<Rightarrow> map_of d (scalarPath kind)
        | Some v \<Rightarrow> Some (ofString v))"
proof (induction calls rule: rev_induct)
  case Nil
  then show ?case by (simp add: lastWritten_def)
next
  case (snoc c calls)
  obtain now k v where c: "c = (now, k, v)" by (cases c)
  show ?case
    using snoc.IH
    by (auto simp add: c writeScalars_append map_of_assign lastWritten_snoc dest: scalarPath_inj)
qed

lemma writeScalars_distinct:
  "distinct (map fst d) \<Longrightarrow> distinct (map fst (writeScalars d calls))"
  by (induction calls arbitrary: d) (auto simp: distinct_assign)

lemma knownVisitor_facts:
  "ip (profile knownVisitor) = Some ''203.0.113.7''"
  "firestoreReady knownVisitor"
  "online (store knownVisitor)"
  "users_by_ip (store knownVisitor) ''203.0.113.7'' =
     Some [(''firstSeen'', ServerTimestamp), (''lastVisit'', ServerTimestamp),
           (''visitCount'', Number (Num 1)),
           (''userAgent'',
            Str ''Mozilla/5.0 (X11; Linux x86_64) AppleWebKit/537.36 Chrome/120.0 Safari/537.36''),
           (''device'', Str ''desktop''), (''preferences'', Obj [])]"
     apply (simp_all add: knownVisitor_def freshTracker_def)
     apply (simp_all add: initialize_split Let_def firestoreReady_def checkReturningUser_def
      newTracker_def plainPage_def emptyStore_def storeField_def)
  apply code_simp
  done

lemma updatePreferencesInFirebase_unknown:
  "ip (profile s) = None \<Longrightarrow> stateOf (updatePreferencesInFirebase kind v s) = s"
  by (simp add: updatePreferencesInFirebase_def)

lemma logEvent_unknown:
  assumes "ip (profile s) = None"
  shows "store (stateOf (logEvent now t d s))
         = (if analyticsReady s
            then (store s)\<lparr>analyticsSink := analyticsSink (store s) @ [(t, eventData now d s)]\<rparr>
            else store s)"
    and "console (page (stateOf (logEvent now t d s)))
           = console (page s) @ [Info (''Analytics event: '' @ t)]"
    and "session_events (store (stateOf (logEvent now t d s))) = session_events (store s)"
    and "sessions (store (stateOf (logEvent now t d s))) = sessions (store s)"
  using assms
  by (auto simp add: logEvent_def Let_def analyticsReady_def consoleLog_def)

lemma logCasinoPreference_unknown:
  assumes "ip (profile s) = None"
  shows "users_by_ip (store (stateOf (logCasinoPreference now kind v s))) = users_by_ip (store s)"
    and "user_events (store (stateOf (logCasinoPreference now kind v s))) = user_events (store s)"
    and "session_events (store (stateOf (logCasinoPreference now kind v s)))
           = session_events (store s)"
    and "sessions (store (stateOf (logCasinoPreference now kind v s))) = sessions (store s)"
  using assms
  by (simp_all add: logCasinoPreference_def Let_def stateOf_andThen
      updatePreferencesInFirebase_unknown logEvent_unknown(3,4))

text \<open>
  Claim C4, as stated, places one scalar rating preference in the tracker's preference
  state after the two calls. In a tracker whose identity is unknown the two calls leave
  the in-memory preferences as the constructor made them (they have no field for a
  rating), and no caller record exists in the store to hold one.
\<close>

theorem rating_without_identity_counterexample:
  "ip (profile freshTracker) = None
   \<and> users_by_ip (store (run (preferenceCalls
         [(1, ''rating'', Some ''low''), (2, ''rating'', Some ''high'')]) freshTracker))
      = Map.empty
   \<and> prefs (session (run (preferenceCalls
         [(1, ''rating'', Some ''low''), (2, ''rating'', Some ''high'')]) freshTracker))
      = \<lparr>viewed = [], clicked = [], amenitiesSelected = [], typePreference = None\<rparr>"
proof -
  have unknown: "ip (profile freshTracker) = None"
    by (simp add: freshTracker_def newTracker_def)
  have empty: "users_by_ip (store freshTracker) = Map.empty"
    by (simp add: freshTracker_def newTracker_def emptyStore_def)
  show ?thesis
    using unknown empty
    by (simp add: preferenceCalls_def logCasinoPreference_unknown(1) logCasinoPreference_prefs
        countPreference_def freshTracker_def newTracker_prefs)
qed

text \<open>
  Claim C4, amended. The scalar preferences live in the remote caller record only. When
  the identity is known, the store is loaded and reachable and the caller record
  exists, then after any sequence of rating and distance calls the record holds exactly
  one field for each kind that was written, equal to the last value written for that
  kind (so \<open>'low'\<close> then \<open>'high'\<close> leaves \<open>'high'\<close>); the in-memory preference
  aggregates are unchanged by such calls.
\<close>

theorem scalar_last_write_wins:
  assumes "ip (profile s) = Some a" and "a \<noteq> []"
    and "firestoreReady s" and "online (store s)"
    and "users_by_ip (store s) a = Some d" and "distinct (map fst d)"
    and "\<forall>c \<in> set calls. fst (snd c) = ''rating'' \<or> fst (snd c) = ''distance''"
    and "lastWritten kind calls = Some v"
  shows "\<exists>d'. users_by_ip (store (run (preferenceCalls calls) s)) a = Some d'
       \<and> filter (\<lambda>e. fst e = scalarPath kind) d' = [(scalarPath kind, ofString v)]
       \<and> prefs (session (run (preferenceCalls calls) s)) = prefs (session s)"
proof -
  from scalar_run [OF assms(1-5) assms(7)]
  have r: "users_by_ip (store (run (preferenceCalls calls) s)) a = Some (writeScalars d calls)"
    and p: "prefs (session (run (preferenceCalls calls) s)) = prefs (session s)"
    by simp_all
  have "map_of (writeScalars d calls) (scalarPath kind) = Some (ofString v)"
    using assms(8) by (simp add: writeScalars_last)
  with writeScalars_distinct [OF assms(6)]
  have "filter (\<lambda>e. fst e = scalarPath kind) (writeScalars d calls)
          = [(scalarPath kind, ofString v)]"
    by (rule only_entry)
  with r p show ?thesis by simp
qed

theorem scalar_last_write_wins_witness:
  "\<exists>d'. users_by_ip (store (run (preferenceCalls
              [(2, ''rating'', Some ''low''), (3, ''rating'', Some ''high'')]) knownVisitor))
           ''203.0.113.7'' = Some d'
        \<and> filter (\<lambda>e. fst e = ''preferences.ratingPreference'') d'
            = [(''preferences.ratingPreference'', Str ''high'')]"
proof -
  have d: "distinct (map fst
     [(''firstSeen'', ServerTimestamp), (''lastVisit'', ServerTimestamp),
      (''visitCount'', Number (Num 1)),
      (''userAgent'',
       Str ''Mozilla/5.0 (X11; Linux x86_64) AppleWebKit/537.36 Chrome/120.0 Safari/537.36''),
      (''device'', Str ''desktop''), (''preferences'', Obj [])])"
    by simp
  have c: "\<forall>c \<in> set [(2::int, ''rating'', Some ''low''), (3, ''rating'', Some ''high'')].
             fst (snd c) = ''rating'' \<or> fst (snd c) = ''distance''"
    by simp
  have l: "lastWritten ''rating'' [(2, ''rating'', Some ''low''), (3, ''rating'', Some ''high'')]
             = Some (Some ''high'')"
    by (simp add: lastWritten_def)
  have ne: "''203.0.113.7'' \<noteq> []" by simp
  from scalar_last_write_wins
         [OF knownVisitor_facts(1) ne knownVisitor_facts(2) knownVisitor_facts(3)
             knownVisitor_facts(4) d c l]
  obtain d' where "users_by_ip (store (run (preferenceCalls
        [(2, ''rating'', Some ''low''), (3, ''rating'', Some ''high'')]) knownVisitor))
        ''203.0.113.7'' = Some d'"
    and "filter (\<lambda>e. fst e = scalarPath ''rating'') d'
           = [(scalarPath ''rating'', ofString (Some ''high''))]"
    by blast
  then show ?thesis
    by (simp add: scalarPath_def)
qed

subsection \<open>The insight summary\<close>

lemma newTracker_previousVisits [simp]: "previousVisits (newTracker now sid st pg) = None"
  by (simp add: newTracker_def)

text \<open>
  For a returning visitor the summary's \<open>visits\<close> is the stored visit count plus 1.
\<close>

lemma checkReturningUser_found:
  assumes "firestoreReady s" and "online (store s)" and "ip (profile s) = Some a" and "a \<noteq> []"
    and "users_by_ip (store s) a = Some d"
  shows "previousVisits (stateOf (checkReturningUser s)) = Some (visitCountOf d)"
    and "returning (profile (stateOf (checkReturningUser s)))"
  using assms firestoreReady_declared [OF assms(1)]
  by (simp_all add: checkReturningUser_def Let_def)

lemma returning_visit_visits:
  assumes "firestoreReady (newTracker t0 sid st pg)" and "online st" and "a \<noteq> []"
    and "users_by_ip st a = Some d"
  shows "profile_visits (getUserInsights t
           (stateOf (initialize t1 (Resolved (Some a) geo) (newTracker t0 sid st pg))))
         = plusOne (visitCountOf d)"
proof -
  let ?s1 = "(newTracker t0 sid st pg)\<lparr>profile := (profile (newTracker t0 sid st pg))\<lparr>ip := Some a, location := geo\<rparr>\<rparr>"
  have "firestoreReady ?s1" "online (store ?s1)" "ip (profile ?s1) = Some a"
    "users_by_ip (store ?s1) a = Some d"
    using assms by (simp_all add: firestoreReady_def newTracker_def)
  then have "previousVisits (stateOf (checkReturningUser ?s1)) = Some (visitCountOf d)"
    using assms(3) by (simp add: checkReturningUser_found)
  then show ?thesis
    using firestoreReady_declared [OF assms(1)]
    by (simp add: getUserInsights_def initialize_split Let_def)
qed

text \<open>
  Claim C5 on a first-time visitor. \<open>previousVisits\<close> is assigned only when the caller
  record is found; for a first visit it is still \<open>undefined\<close> when the summary is taken,
  and \<open>profile.visits\<close> is \<open>undefined + 1\<close>, that is \<open>NaN\<close>, not 1. \<open>logEvent\<close> reads
  the same field as \<open>this.previousVisits || 0\<close> and reports 0 for the same visitor.
\<close>

theorem first_visit_visits_NaN:
  assumes "users_by_ip st a = None"
  shows "profile_visits (getUserInsights t
           (stateOf (initialize t1 (Resolved (Some a) geo) (newTracker t0 sid st pg)))) = NaN
   \<and> profile_isNewUser (getUserInsights t
           (stateOf (initialize t1 (Resolved (Some a) geo) (newTracker t0 sid st pg))))
   \<and> orElse (ofNumber (previousVisits
           (stateOf (initialize t1 (Resolved (Some a) geo) (newTracker t0 sid st pg)))))
         (Number (Num 0)) = Number (Num 0)"
  using assms
  apply (simp add: getUserInsights_def initialize_split Let_def)
  apply (simp add: checkReturningUser_def Let_def newTracker_def orElse_def split: option.splits)
  done

theorem first_visit_visits_NaN_witness:
  "profile_visits (getUserInsights 9
      (stateOf (initialize 1 (Resolved (Some ''203.0.113.7'') []) freshTracker))) = NaN"
proof -
  have "users_by_ip emptyStore ''203.0.113.7'' = None"
    by (simp add: emptyStore_def)
  from first_visit_visits_NaN [OF this, of 9 1 "[]" 0 "''k3x9''" plainPage] show ?thesis
    by (simp add: freshTracker_def)
qed

subsection \<open>Unknown identity\<close>

lemma bareTracker_facts:
  "ip (profile bareTracker) = None"
  "firebase (page bareTracker) = Undeclared"
  "interactions (session bareTracker) = []"
  "store bareTracker = emptyStore"
  by (simp_all add: bareTracker_def newTracker_def)

lemma freshTracker_facts:
  "ip (profile freshTracker) = None"
  "firebase (page freshTracker) \<noteq> Undeclared"
  "\<not> analyticsReady freshTracker"
  "store freshTracker = emptyStore"
  by (simp_all add: freshTracker_def newTracker_def plainPage_def analyticsReady_def)

text \<open>
  Claim C6 says that while \<open>userProfile.ip\<close> is \<open>null\<close> every operation keyed by the
  identity is a no-op and raises no error. The guards of these operations evaluate
  \<open>firebase\<close> before they look at the identity.

  On a page where \<open>firebase\<close> is declared the claim holds: the returning-user lookup
  leaves the state as it is (it only warns when the store client is not loaded), the
  preference update and the linking of a user return at their guard, and \<open>logEvent\<close>
  writes neither the event nor the session summary (the store changes only by the entry
  for the analytics sink, which is not keyed by the identity); nothing throws.

  On a page where \<open>firebase\<close> is not declared it fails: each guard throws a
  \<open>ReferenceError\<close>. \<open>logEvent\<close> throws after it has pushed the interaction, and
  \<open>logCasinoPreference\<close> with it; the promises of the three \<open>async\<close> operations are
  rejected.

  In both cases the in-memory updates happen: the interaction is appended and the
  preference is counted.
\<close>

theorem unknown_identity_guards:
  assumes "ip (profile s) = None"
  shows "(firebase (page s) \<noteq> Undeclared \<longrightarrow>
            checkReturningUser s
              = Returned (if firestoreReady s then s
                          else consoleLog (Warning ''Firebase not available for user check'') s)
          \<and> updatePreferencesInFirebase kind v s = Returned s
          \<and> linkUserWithIP s = Returned s
          \<and> \<not> threw (logEvent now t d s)
          \<and> store (stateOf (logEvent now t d s))
              = (if analyticsReady s
                 then (store s)\<lparr>analyticsSink := analyticsSink (store s)
                                   @ [(t, eventData now d s)]\<rparr>
                 else store s)
          \<and> console (page (stateOf (logEvent now t d s)))
              = console (page s) @ [Info (''Analytics event: '' @ t)]
          \<and> \<not> threw (logCasinoPreference now kind v s)
          \<and> users_by_ip (store (stateOf (logCasinoPreference now kind v s)))
              = users_by_ip (store s)
          \<and> user_events (store (stateOf (logCasinoPreference now kind v s)))
              = user_events (store s)
          \<and> session_events (store (stateOf (logCasinoPreference now kind v s)))
              = session_events (store s)
          \<and> sessions (store (stateOf (logCasinoPreference now kind v s)))
              = sessions (store s))
    \<and> (firebase (page s) = Undeclared \<longrightarrow>
            checkReturningUser s = Threw ReferenceError s
          \<and> updatePreferencesInFirebase kind v s = Threw ReferenceError s
          \<and> linkUserWithIP s = Threw ReferenceError s
          \<and> logEvent now t d s
              = Threw ReferenceError
                  (consoleLog (Info (''Analytics event: '' @ t))
                     (s\<lparr>session := (session s)
                         \<lparr>interactions := interactions (session s)
                            @ [\<lparr>eventType = t, details = d, timestamp = now\<rparr>]\<rparr>\<rparr>))
          \<and> threw (logCasinoPreference now kind v s)
          \<and> store (stateOf (logCasinoPreference now kind v s)) = store s)
    \<and> interactions (session (stateOf (logEvent now t d s)))
         = interactions (session s) @ [\<lparr>eventType = t, details = d, timestamp = now\<rparr>]
    \<and> prefs (session (stateOf (logCasinoPreference now kind v s)))
         = countPreference kind v (prefs (session s))"
proof -
  have declared:
    "checkReturningUser s
       = Returned (if firestoreReady s then s
                   else consoleLog (Warning ''Firebase not available for user check'') s)"
    "updatePreferencesInFirebase kind v s = Returned s"
    "linkUserWithIP s = Returned s"
    if "firebase (page s) \<noteq> Undeclared"
    using that assms
    by (simp_all add: checkReturningUser_def updatePreferencesInFirebase_def linkUserWithIP_def
        split: option.splits)
  have undeclared:
    "checkReturningUser s = Threw ReferenceError s"
    "updatePreferencesInFirebase kind v s = Threw ReferenceError s"
    "linkUserWithIP s = Threw ReferenceError s"
    "logEvent now t d s
       = Threw ReferenceError
           (consoleLog (Info (''Analytics event: '' @ t))
              (s\<lparr>session := (session s)
                  \<lparr>interactions := interactions (session s)
                     @ [\<lparr>eventType = t, details = d, timestamp = now\<rparr>]\<rparr>\<rparr>))"
    if "firebase (page s) = Undeclared"
    using that
    by (simp_all add: checkReturningUser_def updatePreferencesInFirebase_def linkUserWithIP_def
        logEvent_def Let_def)
  have kept: "store (stateOf (logCasinoPreference now kind v s)) = store s"
    if "firebase (page s) = Undeclared"
    using that by (simp add: logCasinoPreference_def Let_def stateOf_andThen logEvent_def)
  show ?thesis
    using assms declared undeclared kept
    by (simp add: logEvent_unknown logCasinoPreference_unknown logCasinoPreference_prefs)
qed

theorem unknown_identity_guards_witness:
  "ip (profile bareTracker) = None
   \<and> firebase (page bareTracker) = Undeclared
   \<and> logEvent 1 ''page_view'' [] bareTracker
       = Threw ReferenceError
           (consoleLog (Info ''Analytics event: page_view'')
              (bareTracker\<lparr>session := (session bareTracker)
                  \<lparr>interactions := [\<lparr>eventType = ''page_view'', details = [], timestamp = 1\<rparr>]\<rparr>\<rparr>))
   \<and> updatePreferencesInFirebase ''category'' (Some ''tribal'') bareTracker
       = Threw ReferenceError bareTracker
   \<and> threw (logCasinoPreference 1 ''category'' (Some ''tribal'') bareTracker)
   \<and> ip (profile freshTracker) = None
   \<and> firebase (page freshTracker) \<noteq> Undeclared
   \<and> updatePreferencesInFirebase ''category'' (Some ''tribal'') freshTracker
       = Returned freshTracker
   \<and> \<not> threw (logEvent 1 ''page_view'' [] freshTracker)
   \<and> store (stateOf (logEvent 1 ''page_view'' [] freshTracker)) = emptyStore
   \<and> viewed (prefs (session (stateOf
        (logCasinoPreference 1 ''category'' (Some ''tribal'') freshTracker))))
      = [(''tribal'', Num 1)]"
proof -
  from unknown_identity_guards
         [OF bareTracker_facts(1), of "''category''" "Some ''tribal''" 1 "''page_view''" "[]"]
       bareTracker_facts
  have bare: "logEvent 1 ''page_view'' [] bareTracker
       = Threw ReferenceError
           (consoleLog (Info ''Analytics event: page_view'')
              (bareTracker\<lparr>session := (session bareTracker)
                  \<lparr>interactions := [\<lparr>eventType = ''page_view'', details = [], timestamp = 1\<rparr>]\<rparr>\<rparr>))
   \<and> updatePreferencesInFirebase ''category'' (Some ''tribal'') bareTracker
       = Threw ReferenceError bareTracker
   \<and> threw (logCasinoPreference 1 ''category'' (Some ''tribal'') bareTracker)"
    by simp
  from unknown_identity_guards
         [OF freshTracker_facts(1), of "''category''" "Some ''tribal''" 1 "''page_view''" "[]"]
       freshTracker_facts
  have fresh: "updatePreferencesInFirebase ''category'' (Some ''tribal'') freshTracker
       = Returned freshTracker
   \<and> \<not> threw (logEvent 1 ''page_view'' [] freshTracker)
   \<and> store (stateOf (logEvent 1 ''page_view'' [] freshTracker)) = emptyStore
   \<and> viewed (prefs (session (stateOf
        (logCasinoPreference 1 ''category'' (Some ''tribal'') freshTracker))))
      = [(''tribal'', Num 1)]"
    by (simp add: freshTracker_def newTracker_prefs countPreference_def Let_def bump_word_labels)
  from bare fresh bareTracker_facts(1,2) freshTracker_facts(1,2) show ?thesis
    by simp
qed

subsection \<open>Rendering the post list\<close>

lemma fold_renderPost:
  "fold (\<lambda>p. renderPost p (arg p)) ps c
     = c @ concat (map (\<lambda>p. (if adDue (arg p) then [AdDiv] else []) @ [createPostElement p]) ps)"
  by (induction ps arbitrary: c) (auto simp: renderPost_def Let_def createAdElement_def)

lemma snapshotForEach_renderPost:
  "snapshotForEach renderPost ps [] = map createPostElement ps"
proof -
  have "snapshotForEach renderPost ps [] = concat (map (\<lambda>p. [createPostElement p]) ps)"
    by (simp add: snapshotForEach_def fold_renderPost [where arg = "\<lambda>p. Undefined"])
  also have "\<dots> = map createPostElement ps"
    by (induction ps) simp_all
  finally show ?thesis .
qed

lemma no_block_among_posts: "AdDiv \<notin> set (map createPostElement ps)"
  by (auto simp add: createPostElement_def)

text \<open>
  What the callback of \<open>loadPosts\<close> would build if it were handed the position of each
  document, as the callback of \<open>Array.prototype.forEach\<close> is: a block goes in before the
  post at position \<open>i\<close> exactly when \<open>i > 0\<close> and \<open>i mod 5 = 0\<close>.
\<close>

lemma adDue_position: "adDue (Number (Num (int i))) = (0 < i \<and> i mod 5 = 0)"
proof -
  have "(0 < int i \<and> int i mod 5 = 0) = (0 < i \<and> i mod 5 = 0)"
    by presburger
  then show ?thesis by (simp only: adDue.simps)
qed

lemma fold_renderPost_positions:
  "fold (\<lambda>(p, i). renderPost p (arg i)) xs c
     = c @ concat (map (\<lambda>(p, i). (if adDue (arg i) then [AdDiv] else [])
                                   @ [createPostElement p]) xs)"
  by (induction xs arbitrary: c) (auto simp: renderPost_def Let_def createAdElement_def)

lemma renderPost_with_position:
  "fold (\<lambda>(p, i). renderPost p (Number (Num (int i)))) (zip ps [0 ..< length ps]) []
     = concat (map (\<lambda>(p, i). (if 0 < i \<and> i mod 5 = 0 then [AdDiv] else [])
                               @ [createPostElement p])
                 (zip ps [0 ..< length ps]))"
proof -
  have "fold (\<lambda>(p, i). renderPost p (Number (Num (int i)))) (zip ps [0 ..< length ps]) []
     = concat (map (\<lambda>(p, i). (if adDue (Number (Num (int i))) then [AdDiv] else [])
                               @ [createPostElement p])
                 (zip ps [0 ..< length ps]))"
    by (simp add: fold_renderPost_positions [where arg = "\<lambda>i. Number (Num (int i))"])
  then show ?thesis
    by (simp only: adDue_position)
qed

lemma renderPost_with_position_twelve:
  "fold (\<lambda>(p, i). renderPost p (Number (Num (int i))))
     (zip [p0, p1, p2, p3, p4, p5, p6, p7, p8, p9, p10, p11] [0 ..< 12]) []
   = [createPostElement p0, createPostElement p1, createPostElement p2,
      createPostElement p3, createPostElement p4, AdDiv,
      createPostElement p5, createPostElement p6, createPostElement p7,
      createPostElement p8, createPostElement p9, AdDiv,
      createPostElement p10, createPostElement p11]"
  using renderPost_with_position [of "[p0, p1, p2, p3, p4, p5, p6, p7, p8, p9, p10, p11]"]
  by (simp add: upt_rec)

text \<open>
  Claim C7 says that \<open>loadPosts\<close> on 12 stored posts inserts two promotional blocks, one
  before the post at index 5 and one before the post at index 10; the comment in the
  callback, \<open>Insert ad after every 5 posts\<close>, says the same. The callback takes the
  index from its second parameter, and \<open>QuerySnapshot.forEach\<close> passes none: \<open>index\<close> is
  \<open>undefined\<close>, \<open>index > 0\<close> is false for every post, and no block is inserted. When the
  store answers, \<open>loadPosts\<close> replaces whatever the container held (that part of the
  claim holds) by the post elements alone, in the order of the query result; for 12
  posts, by 12 post elements.
\<close>

theorem loadPosts_inserts_no_block:
  assumes "firestoreReady s" and "online (store s)"
    and "postsContainer (page s) = Some old"
  shows "postsContainer (page (stateOf (loadPosts s)))
           = Some (map createPostElement (posts (store s)))
    \<and> (\<forall>children. postsContainer (page (stateOf (loadPosts s))) = Some children
          \<longrightarrow> AdDiv \<notin> set children)
    \<and> (posts (store s) = [p0, p1, p2, p3, p4, p5, p6, p7, p8, p9, p10, p11] \<longrightarrow>
        postsContainer (page (stateOf (loadPosts s))) =
          Some [createPostElement p0, createPostElement p1, createPostElement p2,
                createPostElement p3, createPostElement p4, createPostElement p5,
                createPostElement p6, createPostElement p7, createPostElement p8,
                createPostElement p9, createPostElement p10, createPostElement p11])"
proof -
  have rendered: "postsContainer (page (stateOf (loadPosts s)))
           = Some (map createPostElement (posts (store s)))"
    using assms firestoreReady_declared [OF assms(1)]
    by (simp add: loadPosts_def Let_def snapshotForEach_renderPost)
  then show ?thesis
    using no_block_among_posts [of "posts (store s)"] by simp
qed

theorem loadPosts_inserts_no_block_witness:
  "postsContainer (page twelvePosts) = Some [AdDiv]
   \<and> length (posts (store twelvePosts)) = 12
   \<and> postsContainer (page (stateOf (loadPosts twelvePosts))) =
     Some [PostDiv ''Anonymous'' ''l'' None, PostDiv ''Anonymous'' ''k'' None,
           PostDiv ''Anonymous'' ''j'' None, PostDiv ''Anonymous'' ''i'' None,
           PostDiv ''Anonymous'' ''h'' None, PostDiv ''Anonymous'' ''g'' None,
           PostDiv ''Anonymous'' ''f'' None, PostDiv ''Anonymous'' ''e'' None,
           PostDiv ''Anonymous'' ''d'' None, PostDiv ''Anonymous'' ''c'' None,
           PostDiv ''Anonymous'' ''b'' None, PostDiv ''Anonymous'' ''a'' None]"
proof -
  have ready: "firestoreReady twelvePosts"
    and on: "online (store twelvePosts)"
    and old: "postsContainer (page twelvePosts) = Some [AdDiv]"
    and ps: "posts (store twelvePosts) =
      [samplePost ''l'', samplePost ''k'', samplePost ''j'', samplePost ''i'',
       samplePost ''h'', samplePost ''g'', samplePost ''f'', samplePost ''e'',
       samplePost ''d'', samplePost ''c'', samplePost ''b'', samplePost ''a'']"
    by (simp_all add: twelvePosts_def newTracker_def emptyStore_def plainPage_def
        firestoreReady_def)
  from loadPosts_inserts_no_block [OF ready on old] ps old show ?thesis
    by (simp add: createPostElement_def samplePost_def)
qed

text \<open>
  Claim C10. \<open>loadPosts\<close> empties the container before it asks the store; when the
  query is rejected the container stays empty, whatever it showed before.
\<close>

theorem loadPosts_failure_leaves_empty:
  "firestoreReady s \<Longrightarrow> postsContainer (page s) = Some old \<Longrightarrow> \<not> online (store s) \<Longrightarrow>
   postsContainer (page (stateOf (loadPosts s))) = Some []
   \<and> console (page (stateOf (loadPosts s))) = console (page s) @ [Failure ''Error loading posts:'']"
proof -
  assume ready: "firestoreReady s" and shown: "postsContainer (page s) = Some old"
    and rejected: "\<not> online (store s)"
  let ?cleared = "s\<lparr>page := (page s)\<lparr>postsContainer := Some []\<rparr>\<rparr>"
  have "loadPosts s = Returned (consoleLog (Failure ''Error loading posts:'') ?cleared)"
    using ready shown rejected firestoreReady_declared [OF ready]
    by (simp add: loadPosts_def Let_def)
  then show ?thesis by simp
qed

theorem loadPosts_failure_leaves_empty_witness:
  "postsContainer (page twelvePostsOffline) = Some [AdDiv]
   \<and> postsContainer (page (stateOf (loadPosts twelvePostsOffline))) = Some []"
proof -
  have ready: "firestoreReady twelvePostsOffline"
    and old: "postsContainer (page twelvePostsOffline) = Some [AdDiv]"
    and off: "\<not> online (store twelvePostsOffline)"
    by (simp_all add: twelvePostsOffline_def twelvePosts_def newTracker_def emptyStore_def
        plainPage_def firestoreReady_def)
  from loadPosts_failure_leaves_empty [OF ready old off] old show ?thesis
    by simp
qed

subsection \<open>The author of a post\<close>

lemma exec_identity:
  "username (profile s) = None \<and> (isAuthenticated s \<or> userId s = None) \<Longrightarrow>
   username (profile (stateOf (exec c s))) = None
   \<and> (isAuthenticated (stateOf (exec c s)) \<or> userId (stateOf (exec c s)) = None)"
proof (cases c)
  case (Pair now k)
  assume inv: "username (profile s) = None \<and> (isAuthenticated s \<or> userId s = None)"
  show ?thesis
  proof (cases k)
    case (HandleAuthChange ev)
    with inv show ?thesis
      by (cases ev) (simp_all add: Pair handleAuthChange_identity)
  next
    case (Dispatch ev)
    with inv dispatch_identity [of s now ev] show ?thesis
      by (simp add: Pair)
  qed (use inv in \<open>simp_all add: Pair\<close>)
qed

lemma run_identity:
  "username (profile s) = None \<and> (isAuthenticated s \<or> userId s = None) \<Longrightarrow>
   username (profile (run calls s)) = None \<and> (isAuthenticated (run calls s) \<or> userId (run calls s) = None)"
proof (induction calls arbitrary: s)
  case Nil
  then show ?case by simp
next
  case (Cons c cs)
  from Cons.prems have "username (profile (stateOf (exec c s))) = None \<and>
      (isAuthenticated (stateOf (exec c s)) \<or> userId (stateOf (exec c s)) = None)"
    by (rule exec_identity)
  then show ?case
    using Cons.IH by simp
qed

lemma newTracker_identity:
  "username (profile (newTracker now sid st pg)) = None"
  "isAuthenticated (newTracker now sid st pg) = False"
  "userId (newTracker now sid st pg) = None"
  by (simp_all add: newTracker_def)

lemma createPost_adds:
  "firestoreReady s \<Longrightarrow> storageReady s \<Longrightarrow> online (store s) \<Longrightarrow>
   posts (store (stateOf (createPost now txt f s))) = newPost now txt f s # posts (store s)"
  using firestoreReady_declared [of s] by (simp add: createPost_def Let_def)

lemma createPost_without:
  "\<not> (firestoreReady s \<and> storageReady s \<and> online (store s)) \<Longrightarrow>
   posts (store (stateOf (createPost now txt f s))) = posts (store s)"
  by (auto simp add: createPost_def Let_def)

text \<open>
  Claim C9, as stated, says the \<open>userId\<close> field is \<open>'anonymous'\<close> exactly when no user is
  signed in. A signed-in user whose uid is the string \<open>anonymous\<close> gets the same field.
\<close>

theorem post_userId_counterexample:
  "isAuthenticated (run [(1, HandleAuthChange (SignedIn ''anonymous'' None))] freshTracker)
   \<and> posts (store (stateOf (createPost 2 ''hello'' None
        (run [(1, HandleAuthChange (SignedIn ''anonymous'' None))] freshTracker))))
      = [\<lparr>postUserId = ''anonymous'', postUsername = ''Anonymous'', postText = ''hello'',
          videoUrl = None\<rparr>]"
  by (simp add: handleAuthChange_identity createPost_def Let_def newPost_def orString_def
      firestoreReady_def storageReady_def freshTracker_def newTracker_def plainPage_def
      emptyStore_def)

text \<open>
  Claim C9, amended. In every session, the post document that \<open>createPost\<close> adds has
  the username \<open>'Anonymous'\<close>, whoever is signed in, because no call assigns
  \<open>userProfile.username\<close>. Its \<open>userId\<close> is the uid of the signed-in user when that uid is
  a non-empty string, and \<open>'anonymous'\<close> otherwise; so it is \<open>'anonymous'\<close> whenever no user
  is signed in.
\<close>

theorem post_identity:
  assumes "s = run calls (newTracker start sid st pg)"
  shows "(firestoreReady s \<and> storageReady s \<and> online (store s) \<longrightarrow>
            posts (store (stateOf (createPost now txt f s))) = newPost now txt f s # posts (store s))
    \<and> postUsername (newPost now txt f s) = ''Anonymous''
    \<and> postUserId (newPost now txt f s)
        = (case userId s of None \<Rightarrow> ''anonymous''
           | Some u \<Rightarrow> if u = [] then ''anonymous'' else u)
    \<and> (\<not> isAuthenticated s \<longrightarrow> postUserId (newPost now txt f s) = ''anonymous'')"
proof -
  have "username (profile s) = None \<and> (isAuthenticated s \<or> userId s = None)"
    unfolding assms by (rule run_identity) (simp add: newTracker_identity)
  then show ?thesis
    by (auto simp add: newPost_def Let_def orString_def createPost_adds split: option.splits)
qed

theorem post_identity_witness:
  "posts (store (stateOf (createPost 5 ''hello'' None
      (run [(1, HandleAuthChange (SignedIn ''u-17'' (Some ''a@b.c'')))] freshTracker))))
     = [\<lparr>postUserId = ''u-17'', postUsername = ''Anonymous'', postText = ''hello'',
         videoUrl = None\<rparr>]
   \<and> \<not> isAuthenticated
        (run [(1, HandleAuthChange (SignedIn ''u-17'' (Some ''a@b.c''))),
              (2, HandleAuthChange SignedOut)] freshTracker)
   \<and> postUserId (newPost 5 ''hello'' None
      (run [(1, HandleAuthChange (SignedIn ''u-17'' (Some ''a@b.c''))),
            (2, HandleAuthChange SignedOut)] freshTracker))
     = ''anonymous''"
proof -
  have ready:
    "firestoreReady (run [(1, HandleAuthChange (SignedIn ''u-17'' (Some ''a@b.c'')))] freshTracker)"
    "storageReady (run [(1, HandleAuthChange (SignedIn ''u-17'' (Some ''a@b.c'')))] freshTracker)"
    "online (store (run [(1, HandleAuthChange (SignedIn ''u-17'' (Some ''a@b.c'')))] freshTracker))"
    "posts (store (run [(1, HandleAuthChange (SignedIn ''u-17'' (Some ''a@b.c'')))] freshTracker))
       = []"
    by (simp_all add: firestoreReady_def storageReady_def freshTracker_def newTracker_def
        plainPage_def emptyStore_def)
  have out: "\<not> isAuthenticated
        (run [(1, HandleAuthChange (SignedIn ''u-17'' (Some ''a@b.c''))),
              (2, HandleAuthChange SignedOut)] freshTracker)"
    by (simp add: handleAuthChange_identity)
  from post_identity
          [of "run [(1, HandleAuthChange (SignedIn ''u-17'' (Some ''a@b.c'')))] freshTracker"
              "[(1, HandleAuthChange (SignedIn ''u-17'' (Some ''a@b.c'')))]"
              0 "''k3x9''" emptyStore plainPage 5 "''hello''" None]
       post_identity
          [of "run [(1, HandleAuthChange (SignedIn ''u-17'' (Some ''a@b.c''))),
                    (2, HandleAuthChange SignedOut)] freshTracker"
              "[(1, HandleAuthChange (SignedIn ''u-17'' (Some ''a@b.c''))),
                (2, HandleAuthChange SignedOut)]"
              0 "''k3x9''" emptyStore plainPage 5 "''hello''" None]
       ready out
  show ?thesis
    by (simp add: freshTracker_def handleAuthChange_identity newPost_def orString_def
        newTracker_identity)
qed


end
